theory Spec2Isabelle
  imports Main
begin

section \<open>Strings and the JavaScript operations the proxy uses on them\<close>

text \<open>
  A JavaScript string is modelled as a \<^typ>\<open>string\<close>: a list of code units below 256,
  which is what Node yields for request targets and header values (Latin-1).
  \<open>undefined\<close> and \<open>null\<close> are \<open>None\<close>; the empty string is the only falsy string.
\<close>

definition toLowerCase_char :: "char \<Rightarrow> char" where
  "toLowerCase_char c =
     (let n = of_char c :: nat
      in if (65 \<le> n \<and> n \<le> 90) \<or> (192 \<le> n \<and> n \<le> 222 \<and> n \<noteq> 215)
         then char_of (n + 32) else c)"

definition toLowerCase :: "string \<Rightarrow> string" where
  "toLowerCase s = map toLowerCase_char s"

text \<open>\<open>s.startsWith(p)\<close>, also the meaning of an anchored literal pattern \<open>/^p/.test(s)\<close>.\<close>

definition startsWith :: "string \<Rightarrow> string \<Rightarrow> bool" where
  "startsWith s p = (take (length p) s = p)"

text \<open>\<open>x || d\<close> for a value \<open>x\<close> that is a string or undefined.\<close>

definition js_or :: "string option \<Rightarrow> string \<Rightarrow> string" where
  "js_or x d = (case x of None \<Rightarrow> d | Some s \<Rightarrow> if s = [] then d else s)"

text \<open>\<open>s.indexOf(p)\<close>: the first position where \<open>p\<close> occurs, \<open>None\<close> for -1.\<close>

fun indexOf :: "string \<Rightarrow> string \<Rightarrow> nat option" where
  "indexOf [] p = (if p = [] then Some 0 else None)"
| "indexOf (c # cs) p =
     (if startsWith (c # cs) p then Some 0 else map_option Suc (indexOf cs p))"

text \<open>White space as \<open>String.prototype.trim\<close> sees it below code unit 256.\<close>

definition isSpace :: "char \<Rightarrow> bool" where
  "isSpace c = (let n = of_char c :: nat in (9 \<le> n \<and> n \<le> 13) \<or> n = 32 \<or> n = 160)"

definition trim :: "string \<Rightarrow> string" where
  "trim s = rev (dropWhile isSpace (rev (dropWhile isSpace s)))"

text \<open>\<open>s.split(",")[0]\<close>: the part before the first comma.\<close>

definition split_comma_first :: "string \<Rightarrow> string" where
  "split_comma_first s = takeWhile (\<lambda>c. c \<noteq> CHR '','') s"

definition isDigit :: "char \<Rightarrow> bool" where
  "isDigit c = (let n = of_char c :: nat in 48 \<le> n \<and> n \<le> 57)"

definition digit_char :: "nat \<Rightarrow> char" where
  "digit_char d = char_of (48 + d)"

text \<open>Decimal rendering of a natural number, as \<open>String(n)\<close> gives it.\<close>

fun decimal :: "nat \<Rightarrow> string" where
  "decimal n = (if n < 10 then [digit_char n] else decimal (n div 10) @ [digit_char (n mod 10)])"

declare decimal.simps [simp del]

text \<open>
  The numbers \<open>parseInt\<close> can return. A JavaScript number is a double: an integer is held
  exactly up to \<open>2^53\<close> in magnitude, and \<open>Exact\<close> is used for those only. \<open>Rounded neg ds\<close>
  is the double \<open>parseInt\<close> returns for the digits \<open>ds\<close> (with a minus sign when \<open>neg\<close>) whose
  value lies beyond \<open>2^53\<close>: a rounded value, which the model does not compute.
\<close>

datatype js_number = NaN | Exact int | Rounded bool string

definition digits_value :: "string \<Rightarrow> nat" where
  "digits_value ds = foldl (\<lambda>acc c. 10 * acc + (of_char c - 48)) 0 ds"

text \<open>
  \<open>parseInt(s, 10)\<close>: leading white space, an optional sign, then the longest run of
  decimal digits.
\<close>

definition parseInt10 :: "string \<Rightarrow> js_number" where
  "parseInt10 s =
     (let s1 = dropWhile isSpace s;
          neg = (s1 \<noteq> [] \<and> hd s1 = CHR ''-'');
          s2 = (if s1 \<noteq> [] \<and> (hd s1 = CHR ''-'' \<or> hd s1 = CHR ''+'') then tl s1 else s1);
          ds = takeWhile isDigit s2
      in if ds = [] then NaN
         else if int (digits_value ds) \<le> 2 ^ 53
         then Exact (if neg then - int (digits_value ds) else int (digits_value ds))
         else Rounded neg ds)"

text \<open>\<open>n || d\<close> for a number: NaN and 0 are falsy.\<close>

definition num_or :: "js_number \<Rightarrow> js_number \<Rightarrow> js_number" where
  "num_or x d = (case x of NaN \<Rightarrow> d | Exact n \<Rightarrow> if n = 0 then d else x | Rounded neg ds \<Rightarrow> x)"

text \<open>
  The text \<open>String\<close> gives for the double that \<open>parseInt\<close> returns for a run of digits
  whose value lies beyond \<open>2^53\<close>: the digits of the rounded value, in exponent notation from
  \<open>10^21\<close> on (\<open>9007199254740993\<close> gives \<open>9007199254740992\<close>, twenty-three nines give
  \<open>1e+23\<close>). It is some function of the digits; nothing more is fixed about it here, and
  nothing below depends on what it is.
\<close>

definition roundedText :: "string \<Rightarrow> string" where
  "roundedText = (SOME f. True)"

text \<open>\<open>String(n)\<close> for the numbers above.\<close>

definition String_number :: "js_number \<Rightarrow> string" where
  "String_number x =
     (case x of
        NaN \<Rightarrow> ''NaN''
      | Exact i \<Rightarrow> if i < 0 then CHR ''-'' # decimal (nat (- i)) else decimal (nat i)
      | Rounded neg ds \<Rightarrow> (if neg then ''-'' else []) @ roundedText ds)"

section \<open>JSON bodies\<close>

datatype json = JString string | JObject "(string \<times> json) list"

definition hex_digit :: "nat \<Rightarrow> char" where
  "hex_digit d = (if d < 10 then char_of (48 + d) else char_of (87 + d))"

text \<open>The escaping \<open>JSON.stringify\<close> applies to one code unit of a string.\<close>

definition json_escape_char :: "char \<Rightarrow> string" where
  "json_escape_char c =
     (let n = of_char c :: nat
      in if n = 34 then [CHR 0x5C, CHR 0x22]
         else if n = 92 then [CHR 0x5C, CHR 0x5C]
         else if n = 8 then [CHR 0x5C, CHR ''b'']
         else if n = 12 then [CHR 0x5C, CHR ''f'']
         else if n = 10 then [CHR 0x5C, CHR ''n'']
         else if n = 13 then [CHR 0x5C, CHR ''r'']
         else if n = 9 then [CHR 0x5C, CHR ''t'']
         else if n < 32 then [CHR 0x5C, CHR ''u'', CHR ''0'', CHR ''0'',
                              hex_digit (n div 16), hex_digit (n mod 16)]
         else [c])"

definition json_quote :: "string \<Rightarrow> string" where
  "json_quote s = [CHR 0x22] @ concat (map json_escape_char s) @ [CHR 0x22]"

fun JSON_stringify :: "json \<Rightarrow> string"
  and JSON_members :: "(string \<times> json) list \<Rightarrow> string" where
  "JSON_stringify (JString s) = json_quote s"
| "JSON_stringify (JObject kvs) = ''{'' @ JSON_members kvs @ ''}''"
| "JSON_members [] = []"
| "JSON_members ((k, v) # kvs) =
     json_quote k @ '':'' @ JSON_stringify v @ (if kvs = [] then [] else '','' @ JSON_members kvs)"

section \<open>The platform: URL parsing, percent-decoding, the outbound call\<close>

text \<open>
  \<open>new URL\<close>, \<open>decodeURIComponent\<close> and \<open>fetch\<close> belong to the runtime, not to the
  proxy. They are parameters of the model: every theorem below holds for any
  implementation of them. A \<open>parsed_url\<close> carries the properties the proxy reads.
\<close>

record parsed_url =
  protocol :: string
  hostname :: string
  pathname :: string
  searchParam_url :: "string option"

record fetch_init =
  f_target :: string
  f_method :: string
  f_headers :: "(string \<times> string) list"
  f_body :: "string option"
  f_redirect :: string

text \<open>
  An upstream response: \<open>up_headers\<close> is what \<open>upstream.headers.entries()\<close> yields, in
  order; \<open>up_body\<close> is \<open>Inr\<close> the bytes of \<open>upstream.arrayBuffer()\<close>, or \<open>Inl\<close> the message
  of the error it rejects with.
\<close>

record upstream =
  up_status :: nat
  up_headers :: "(string \<times> string) list"
  up_body :: "string + string"

text \<open>
  \<open>newURL P s base\<close> is \<open>new URL(s)\<close> or \<open>new URL(s, base)\<close>, \<open>None\<close> when it throws;
  \<open>decodeURIComponent P s\<close> is \<open>None\<close> when it throws; \<open>fetch P init\<close> is \<open>Inl msg\<close>
  when the call rejects, \<open>msg\<close> being \<open>String(err && err.message || err)\<close>.
\<close>

record platform =
  newURL :: "string \<Rightarrow> string option \<Rightarrow> parsed_url option"
  decodeURIComponent :: "string \<Rightarrow> string option"
  fetch :: "fetch_init \<Rightarrow> string + upstream"

section \<open>Requests, responses, configuration\<close>

text \<open>
  \<open>req_headers\<close> is the object \<open>req.headers\<close> as a list of its own properties (lower-case
  names, each once); \<open>req_remoteAddress\<close> is \<open>req.socket?.remoteAddress\<close>; \<open>req_body\<close> is
  what the request stream delivers: \<open>Inr\<close> the concatenated chunks, \<open>Inl\<close> a stream error.
\<close>

record request =
  req_method :: string
  req_url :: string
  req_headers :: "(string \<times> string) list"
  req_remoteAddress :: "string option"
  req_body :: "string + string"

text \<open>What \<open>res.end\<close> was called with.\<close>

datatype payload = NoBody | Text string | Buffer string

text \<open>
  The response object. Node keeps one header per lower-cased name, with the name as last
  written and its value; \<open>res_body\<close> is \<open>None\<close> until \<open>res.end\<close> is called.
\<close>

record response =
  statusCode :: nat
  res_headers :: "string \<rightharpoonup> string \<times> string"
  res_body :: "payload option"

definition newResponse :: response where
  "newResponse = \<lparr>statusCode = 200, res_headers = Map.empty, res_body = None\<rparr>"

definition setHeader :: "response \<Rightarrow> string \<Rightarrow> string \<Rightarrow> response" where
  "setHeader res name v = res\<lparr>res_headers := (res_headers res)(toLowerCase name \<mapsto> (name, v))\<rparr>"

definition getHeader :: "response \<Rightarrow> string \<Rightarrow> string option" where
  "getHeader res name = map_option snd (res_headers res (toLowerCase name))"

definition end_res :: "response \<Rightarrow> payload \<Rightarrow> response" where
  "end_res res b = res\<lparr>res_body := Some b\<rparr>"

text \<open>
  The module-level constants computed from the environment. The three Sets are lists in
  insertion order; \<open>API_KEY\<close> and \<open>CORS_MAX_AGE\<close> are the environment strings themselves.
\<close>

record config =
  allowlist :: "string list"
  denylist :: "string list"
  requiredHeaders :: "string list"
  API_KEY :: string
  CORS_MAX_AGE :: string
  credentials :: bool
  rateLimitMax :: nat

record rl_rec =
  count :: nat
  reset :: nat

type_synonym rl_bucket = "string \<rightharpoonup> rl_rec"

section \<open>Small helpers\<close>

definition hopByHopHeaders :: "string list" where
  "hopByHopHeaders =
     [''connection'', ''proxy-connection'', ''keep-alive'', ''transfer-encoding'',
      ''upgrade'', ''te'', ''trailer'', ''proxy-authorization'', ''proxy-authenticate'']"

definition WINDOW_MS :: nat where
  "WINDOW_MS = 10 * 60 * 1000"

text \<open>\<open>t\<close> is the value of \<open>Date.now()\<close>; the result is the decision and the updated table.\<close>

definition rateLimitAllow :: "nat \<Rightarrow> nat \<Rightarrow> rl_bucket \<Rightarrow> string \<Rightarrow> bool \<times> rl_bucket" where
  "rateLimitAllow rlMax t rlBucket ip =
     (if rlMax = 0 then (True, rlBucket)
      else
        let rec0 = (case rlBucket ip of Some r \<Rightarrow> r | None \<Rightarrow> \<lparr>count = 0, reset = t + WINDOW_MS\<rparr>);
            rec1 = (if t > reset rec0 then \<lparr>count = 0, reset = t + WINDOW_MS\<rparr> else rec0);
            rec2 = rec1\<lparr>count := count rec1 + 1\<rparr>
        in (count rec2 \<le> rlMax, rlBucket(ip \<mapsto> rec2)))"

text \<open>Reading an own property of the headers object.\<close>

definition header :: "request \<Rightarrow> string \<Rightarrow> string option" where
  "header req name = map_of (req_headers req) name"

definition getClientIP :: "request \<Rightarrow> string" where
  "getClientIP req =
     js_or (header req ''x-real-ip'')
       (js_or (map_option (\<lambda>v. trim (split_comma_first v)) (header req ''x-forwarded-for''))
          (js_or (req_remoteAddress req) ''0.0.0.0''))"

definition getTargetFromRequest :: "platform \<Rightarrow> request \<Rightarrow> string" where
  "getTargetFromRequest P req =
     (let q = (case newURL P (req_url req) (Some ''http://x'') of
                 None \<Rightarrow> None
               | Some u \<Rightarrow> searchParam_url u)
      in if js_or q [] \<noteq> [] then js_or q []
         else case indexOf (req_url req) ''/api/proxy/'' of
                None \<Rightarrow> []
              | Some idx \<Rightarrow>
                  let part = drop (idx + length ''/api/proxy/'') (req_url req)
                  in if part \<noteq> []
                     then (case decodeURIComponent P part of Some d \<Rightarrow> d | None \<Rightarrow> part)
                     else [])"

definition isHttpHttps :: "platform \<Rightarrow> string \<Rightarrow> bool" where
  "isHttpHttps P urlStr =
     (case newURL P urlStr None of
        None \<Rightarrow> False
      | Some u \<Rightarrow> protocol u = ''http:'' \<or> protocol u = ''https:'')"

text \<open>\<open>/^172\.(1[6-9]|2\d|3[0-1])\./.test(s)\<close>\<close>

fun matches_172 :: "string \<Rightarrow> bool" where
  "matches_172 (c1 # c2 # c3 # c4 # a # b # c7 # _) =
     (c1 = CHR ''1'' \<and> c2 = CHR ''7'' \<and> c3 = CHR ''2'' \<and> c4 = CHR ''.'' \<and>
      ((a = CHR ''1'' \<and> b \<in> set ''6789'') \<or>
       (a = CHR ''2'' \<and> isDigit b) \<or>
       (a = CHR ''3'' \<and> b \<in> set ''01'')) \<and>
      c7 = CHR ''.'')"
| "matches_172 _ = False"

text \<open>The tests \<open>isBlockedPrivateHost\<close> applies to the lower-cased host name, in its order.\<close>

definition blockedHostname :: "string \<Rightarrow> bool" where
  "blockedHostname lower =
     (if lower = ''localhost'' \<or> lower = ''0.0.0.0'' \<or> lower = ''127.0.0.1'' \<or> lower = ''::1''
      then True
      else if startsWith lower ''10.'' then True
      else if startsWith lower ''192.168.'' then True
      else if matches_172 lower then True
      else if startsWith lower ''fc'' \<or> startsWith lower ''fd'' then True
      else False)"

definition isBlockedPrivateHost :: "platform \<Rightarrow> string \<Rightarrow> bool" where
  "isBlockedPrivateHost P urlStr =
     (case newURL P urlStr None of
        None \<Rightarrow> True
      | Some u \<Rightarrow> blockedHostname (toLowerCase (js_or (Some (hostname u)) [])))"

definition reflectCors :: "config \<Rightarrow> request \<Rightarrow> response \<Rightarrow> response" where
  "reflectCors cfg req res =
     (let origin = js_or (header req ''origin'') ''*'';
          res1 = (if credentials cfg
                  then setHeader
                         (setHeader (setHeader res ''Access-Control-Allow-Origin'' origin)
                            ''Vary'' ''Origin'')
                         ''Access-Control-Allow-Credentials'' ''true''
                  else setHeader res ''Access-Control-Allow-Origin'' ''*'')
      in setHeader res1 ''Access-Control-Expose-Headers'' ''*'')"

definition preflight :: "config \<Rightarrow> request \<Rightarrow> response \<Rightarrow> response" where
  "preflight cfg req res =
     (let res1 = reflectCors cfg req res;
          res2 = setHeader res1 ''Access-Control-Allow-Methods''
                   ''GET,HEAD,POST,PUT,PATCH,DELETE,OPTIONS'';
          reqHeaders = header req ''access-control-request-headers'';
          res3 = (if js_or reqHeaders [] \<noteq> []
                  then setHeader res2 ''Access-Control-Allow-Headers'' (js_or reqHeaders [])
                  else res2);
          res4 = setHeader res3 ''Access-Control-Max-Age''
                   (String_number (num_or (parseInt10 (CORS_MAX_AGE cfg)) (Exact 600)))
      in end_res (res4\<lparr>statusCode := 204\<rparr>) NoBody)"

definition fail :: "response \<Rightarrow> nat \<Rightarrow> string \<Rightarrow> response" where
  "fail res code msg =
     end_res
       (setHeader (res\<lparr>statusCode := code\<rparr>) ''Content-Type'' ''application/json; charset=utf-8'')
       (Text (JSON_stringify (JObject [(''error'', JString msg)])))"

text \<open>
  \<open>obj[k] = v\<close> on an object used as a dictionary: an existing own property keeps its
  place, a new one is added last. (\<open>Object.entries\<close> lists names that are array indices
  first; the response keeps its headers by name, so the order of the copy does not show.)
\<close>

fun assign :: "(string \<times> string) list \<Rightarrow> string \<Rightarrow> string \<Rightarrow> (string \<times> string) list" where
  "assign [] k v = [(k, v)]"
| "assign ((k', v') # kvs) k v = (if k' = k then (k, v) # kvs else (k', v') # assign kvs k v)"

text \<open>\<open>Headers.set\<close> keeps one value per lower-cased name.\<close>

definition scrubRequestHeaders :: "(string \<times> string) list \<Rightarrow> (string \<times> string) list" where
  "scrubRequestHeaders hs =
     foldl (\<lambda>out (k, v).
              let lk = toLowerCase k
              in if lk \<in> set hopByHopHeaders then out
                 else if lk = ''host'' \<or> lk = ''content-length'' \<or> lk = ''accept-encoding'' then out
                 else assign out lk v)
       [] hs"

text \<open>
  \<open>out\<close> is a plain object: assigning a string to its \<open>__proto__\<close> key creates no property,
  every other key does.
\<close>

definition scrubResponseHeaders :: "(string \<times> string) list \<Rightarrow> (string \<times> string) list" where
  "scrubResponseHeaders entries =
     foldl (\<lambda>out (k, v).
              let lk = toLowerCase k
              in if lk \<in> set hopByHopHeaders then out
                 else if k = ''__proto__'' then out
                 else assign out k v)
       [] entries"

text \<open>The same loop, one round at a time: \<open>relayable\<close> is the test an entry's name must pass.\<close>

definition relayable :: "string \<Rightarrow> bool" where
  "relayable k = (toLowerCase k \<notin> set hopByHopHeaders \<and> k \<noteq> ''__proto__'')"

definition scrubStep :: "(string \<times> string) list \<Rightarrow> string \<times> string \<Rightarrow> (string \<times> string) list" where
  "scrubStep out kv = (if relayable (fst kv) then assign out (fst kv) (snd kv) else out)"

section \<open>The request handler\<close>

text \<open>
  The property names every plain object inherits; \<open>k in obj\<close> is true for them as well
  as for the object's own properties.
\<close>

definition objectPrototypeKeys :: "string list" where
  "objectPrototypeKeys =
     [''constructor'', ''__defineGetter__'', ''__defineSetter__'', ''hasOwnProperty'',
      ''__lookupGetter__'', ''__lookupSetter__'', ''isPrototypeOf'', ''propertyIsEnumerable'',
      ''toString'', ''valueOf'', ''__proto__'', ''toLocaleString'']"

definition js_in :: "string \<Rightarrow> (string \<times> string) list \<Rightarrow> bool" where
  "js_in k obj = (k \<in> set (map fst obj) \<or> k \<in> set objectPrototypeKeys)"

text \<open>The loop that copies the scrubbed upstream headers onto the response.\<close>

definition copyResponseHeaders :: "response \<Rightarrow> (string \<times> string) list \<Rightarrow> response" where
  "copyResponseHeaders res respHeaders =
     foldl (\<lambda>r (k, v).
              if startsWith (toLowerCase k) ''access-control-'' then r else setHeader r k v)
       res respHeaders"

text \<open>One round of that loop.\<close>

definition copyStep :: "response \<Rightarrow> string \<times> string \<Rightarrow> response" where
  "copyStep r kv = (if startsWith (toLowerCase (fst kv)) ''access-control-'' then r
                    else setHeader r (fst kv) (snd kv))"

text \<open>
  The body of the \<open>try\<close> block once \<open>fetch\<close> has returned \<open>up\<close>; an error while reading
  the upstream body reaches the \<open>catch\<close>.
\<close>

definition relay :: "config \<Rightarrow> request \<Rightarrow> response \<Rightarrow> upstream \<Rightarrow> response" where
  "relay cfg req res up =
     (let res1 = res\<lparr>statusCode := up_status up\<rparr>;
          res2 = copyResponseHeaders res1 (scrubResponseHeaders (up_headers up));
          res3 = reflectCors cfg req res2
      in case up_body up of
           Inr buf \<Rightarrow> end_res res3 (Buffer buf)
         | Inl msg \<Rightarrow> fail res3 502 (''Upstream fetch failed: '' @ msg))"

text \<open>
  What one call of the handler leaves behind: the response, the rate-limit table, the
  outbound calls it made, and the error it threw, if any (the response is then not ended).
\<close>

record outcome =
  out_res :: response
  out_bucket :: rl_bucket
  out_fetches :: "fetch_init list"
  out_thrown :: "string option"

definition finish :: "response \<Rightarrow> rl_bucket \<Rightarrow> outcome" where
  "finish res rlBucket =
     \<lparr>out_res = res, out_bucket = rlBucket, out_fetches = [], out_thrown = None\<rparr>"

definition handler :: "platform \<Rightarrow> config \<Rightarrow> nat \<Rightarrow> rl_bucket \<Rightarrow> request \<Rightarrow> outcome" where
  "handler P cfg t rlBucket req =
     (if req_method req = ''OPTIONS''
      then finish (preflight cfg req (reflectCors cfg req newResponse)) rlBucket
      else
        let res = reflectCors cfg req newResponse;
            requestOrigin = toLowerCase (js_or (header req ''origin'') [])
        in if denylist cfg \<noteq> [] \<and> requestOrigin \<in> set (denylist cfg)
           then finish (fail res 403 ''Origin denied.'') rlBucket
           else if allowlist cfg \<noteq> [] \<and> requestOrigin \<notin> set (allowlist cfg)
           then finish (fail res 403 ''Origin not allowed.'') rlBucket
           else
             case find (\<lambda>rh. \<not> js_in rh (req_headers req)) (requiredHeaders cfg) of
               Some rh \<Rightarrow> finish (fail res 400 (''Missing required header: '' @ rh)) rlBucket
             | None \<Rightarrow>
                 if API_KEY cfg \<noteq> [] \<and> js_or (header req ''x-proxy-key'') [] \<noteq> API_KEY cfg
                 then finish (fail res 401 ''Invalid or missing API key.'') rlBucket
                 else
                   let ip = getClientIP req;
                       allowed = rateLimitAllow (rateLimitMax cfg) t rlBucket ip;
                       rlBucket' = snd allowed
                   in if \<not> fst allowed
                      then finish (fail res 429 ''Rate limit exceeded. Try later.'') rlBucket'
                      else
                        let target = getTargetFromRequest P req
                        in if target = []
                           then finish
                                  (fail res 400
                                     ''Provide a target URL via ?url= or path /api/proxy/<url>.'')
                                  rlBucket'
                           else if \<not> isHttpHttps P target
                           then finish (fail res 400 ''Only http(s) URLs are allowed.'') rlBucket'
                           else if isBlockedPrivateHost P target
                           then finish (fail res 403 ''Target host is blocked.'') rlBucket'
                           else
                             let method = (if req_method req = ''GET'' \<or> req_method req = ''HEAD''
                                           then req_method req
                                           else js_or (Some (req_method req)) ''GET'');
                                 upstreamHeaders = scrubRequestHeaders (req_headers req);
                                 body = (if method = ''GET'' \<or> method = ''HEAD'' then Inr None
                                         else case req_body req of
                                                Inl e \<Rightarrow> Inl e
                                              | Inr b \<Rightarrow> Inr (Some b))
                             in (case body of
                                  Inl e \<Rightarrow>
                                    \<lparr>out_res = res, out_bucket = rlBucket', out_fetches = [],
                                     out_thrown = Some e\<rparr>
                                | Inr b \<Rightarrow>
                                    let init = \<lparr>f_target = target, f_method = method,
                                                f_headers = upstreamHeaders, f_body = b,
                                                f_redirect = ''manual''\<rparr>
                                    in \<lparr>out_res =
                                          (case fetch P init of
                                             Inl msg \<Rightarrow>
                                               fail res 502 (''Upstream fetch failed: '' @ msg)
                                           | Inr up \<Rightarrow> relay cfg req res up),
                                        out_bucket = rlBucket', out_fetches = [init],
                                        out_thrown = None\<rparr>))"

section \<open>The cors-anywhere wrapper (api/proxy.js)\<close>

subsection \<open>The version under \<open>src/api\<close>\<close>

definition isLineTerminator :: "char \<Rightarrow> bool" where
  "isLineTerminator c = (c = CHR 0x0A \<or> c = CHR 0x0D)"

text \<open>\<open>pathname.match(/\/api\/proxy\/(.+)/)\<close>: the first capture group of the leftmost match.\<close>

fun match_api_proxy :: "string \<Rightarrow> string option" where
  "match_api_proxy [] = None"
| "match_api_proxy (c # cs) =
     (let rest = drop (length ''/api/proxy/'') (c # cs)
      in if startsWith (c # cs) ''/api/proxy/'' \<and> rest \<noteq> [] \<and> \<not> isLineTerminator (hd rest)
         then Some (takeWhile (\<lambda>x. \<not> isLineTerminator x) rest)
         else match_api_proxy cs)"

text \<open>\<open>None\<close>: \<open>new URL(req.url, "http://local")\<close> threw.\<close>

definition makeCorsAnywherePath :: "platform \<Rightarrow> request \<Rightarrow> string option" where
  "makeCorsAnywherePath P req =
     (case newURL P (req_url req) (Some ''http://local'') of
        None \<Rightarrow> None
      | Some u \<Rightarrow>
          let target0 = js_or (searchParam_url u) [];
              target = (if target0 = []
                        then (case match_api_proxy (pathname u) of
                                None \<Rightarrow> []
                              | Some m1 \<Rightarrow>
                                  (case decodeURIComponent P m1 of Some d \<Rightarrow> d | None \<Rightarrow> m1))
                        else target0)
          in if target = [] then Some []
             else if \<not> (startsWith (toLowerCase target) ''http://'' \<or>
                         startsWith (toLowerCase target) ''https://'')
             then Some []
             else Some (''/'' @ target))"

text \<open>
  The exported function either throws, answers by itself, or hands the request, its URL
  rewritten, to the cors-anywhere server, which is not part of this repository.
\<close>

datatype wrapper_result = Threw | Responded response | Delegated string

definition proxy_wrapper :: "platform \<Rightarrow> request \<Rightarrow> wrapper_result" where
  "proxy_wrapper P req =
     (case makeCorsAnywherePath P req of
        None \<Rightarrow> Threw
      | Some pathForCorsAnywhere \<Rightarrow>
          if pathForCorsAnywhere = []
          then Responded
                 (end_res
                    (setHeader (newResponse\<lparr>statusCode := 400\<rparr>)
                       ''Content-Type'' ''application/json; charset=utf-8'')
                    (Text (JSON_stringify (JObject
                       [(''error'',
                         JString ''Provide target via ?url= or /api/proxy/<url>, only http(s) allowed.'')]))))
          else Delegated pathForCorsAnywhere)"

subsection \<open>The variant with health endpoints\<close>

definition sendHealthJSON :: response where
  "sendHealthJSON =
     end_res
       (setHeader (newResponse\<lparr>statusCode := 200\<rparr>)
          ''Content-Type'' ''application/json; charset=utf-8'')
       (Text (JSON_stringify (JObject
          [(''status'', JString ''ok''),
           (''name'', JString ''cors-anywhere-serverless''),
           (''usage'',
            JString ''GET /api/proxy?url=<absolute-url> or /api/proxy/<encoded-absolute-url>''),
           (''version'', JString ''1.0.0'')])))"

definition sendHealthText :: response where
  "sendHealthText =
     end_res
       (setHeader (newResponse\<lparr>statusCode := 200\<rparr>) ''Content-Type'' ''text/plain; charset=utf-8'')
       (Text ''ok'')"

text \<open>
  The later version of the wrapper answers four health URLs before it looks for a target,
  and its 400 response names an example. Its \<open>makeCorsAnywherePath\<close> is the one above.
\<close>

definition proxy_wrapper_health :: "platform \<Rightarrow> request \<Rightarrow> wrapper_result" where
  "proxy_wrapper_health P req =
     (case newURL P (req_url req) (Some ''http://local'') of
        None \<Rightarrow> Threw
      | Some url \<Rightarrow>
          if req_method req = ''GET'' \<and> pathname url = ''/''
          then Responded sendHealthJSON
          else if req_method req = ''GET'' \<and>
                  (pathname url = ''/health'' \<or> pathname url = ''/health/'')
          then Responded sendHealthText
          else if req_method req = ''GET'' \<and>
                  (pathname url = ''/api/proxy'' \<or> pathname url = ''/api/proxy/'') \<and>
                  js_or (searchParam_url url) [] = []
          then Responded sendHealthJSON
          else if req_method req = ''GET'' \<and>
                  (pathname url = ''/api/proxy/health'' \<or> pathname url = ''/api/proxy/health/'')
          then Responded sendHealthText
          else
            case makeCorsAnywherePath P req of
              None \<Rightarrow> Threw
            | Some pathForCorsAnywhere \<Rightarrow>
                if pathForCorsAnywhere = []
                then Responded
                       (end_res
                          (setHeader (newResponse\<lparr>statusCode := 400\<rparr>)
                             ''Content-Type'' ''application/json; charset=utf-8'')
                          (Text (JSON_stringify (JObject
                             [(''error'',
                               JString ''Provide target via ?url= or /api/proxy/<url>, only http(s) allowed.''),
                              (''example'',
                               JString ''/api/proxy?url=https%3A%2F%2Fhttpbin.org%2Fget'')]))))
                else Delegated pathForCorsAnywhere)"

section \<open>The properties, in the specification's words\<close>

text \<open>
  The proxy's own CORS headers for a request: the Origin header's value (or \<open>*\<close> when
  there is none), \<open>Vary\<close> and the credentials flag in credentials mode, \<open>*\<close> otherwise, and
  the expose-headers wildcard in both modes.
\<close>

definition corsHeaders :: "config \<Rightarrow> request \<Rightarrow> (string \<times> string) list" where
  "corsHeaders cfg req =
     (if credentials cfg
      then [(''access-control-allow-origin'', js_or (header req ''origin'') ''*''),
            (''vary'', ''Origin''),
            (''access-control-allow-credentials'', ''true'')]
      else [(''access-control-allow-origin'', ''*'')])
     @ [(''access-control-expose-headers'', ''*'')]"

definition carriesCors :: "config \<Rightarrow> request \<Rightarrow> response \<Rightarrow> bool" where
  "carriesCors cfg req res = list_all (\<lambda>(n, v). getHeader res n = Some v) (corsHeaders cfg req)"

text \<open>An error response: the status, a JSON object with the single field \<open>error\<close>.\<close>

definition isErrorResponse :: "response \<Rightarrow> nat \<Rightarrow> string \<Rightarrow> bool" where
  "isErrorResponse res code msg =
     (statusCode res = code \<and>
      res_body res = Some (Text (JSON_stringify (JObject [(''error'', JString msg)]))) \<and>
      getHeader res ''content-type'' = Some ''application/json; charset=utf-8'')"

text \<open>The four stateless checks of the Policy Gate (section 4.2, steps 1 to 4).\<close>

definition requestOrigin :: "request \<Rightarrow> string" where
  "requestOrigin req = toLowerCase (js_or (header req ''origin'') [])"

definition originDenied :: "config \<Rightarrow> request \<Rightarrow> bool" where
  "originDenied cfg req = (denylist cfg \<noteq> [] \<and> requestOrigin req \<in> set (denylist cfg))"

definition originNotAllowed :: "config \<Rightarrow> request \<Rightarrow> bool" where
  "originNotAllowed cfg req = (allowlist cfg \<noteq> [] \<and> requestOrigin req \<notin> set (allowlist cfg))"

definition missingRequiredHeader :: "config \<Rightarrow> request \<Rightarrow> string option" where
  "missingRequiredHeader cfg req =
     find (\<lambda>rh. \<not> js_in rh (req_headers req)) (requiredHeaders cfg)"

definition unauthorized :: "config \<Rightarrow> request \<Rightarrow> bool" where
  "unauthorized cfg req =
     (API_KEY cfg \<noteq> [] \<and> js_or (header req ''x-proxy-key'') [] \<noteq> API_KEY cfg)"

definition passesPolicy :: "config \<Rightarrow> request \<Rightarrow> bool" where
  "passesPolicy cfg req =
     (\<not> originDenied cfg req \<and> \<not> originNotAllowed cfg req \<and>
      missingRequiredHeader cfg req = None \<and> \<not> unauthorized cfg req)"

text \<open>The request is not a preflight and passes the whole Policy Gate, rate limit included.\<close>

definition admitted :: "config \<Rightarrow> nat \<Rightarrow> rl_bucket \<Rightarrow> request \<Rightarrow> bool" where
  "admitted cfg t rlBucket req =
     (req_method req \<noteq> ''OPTIONS'' \<and> passesPolicy cfg req \<and>
      fst (rateLimitAllow (rateLimitMax cfg) t rlBucket (getClientIP req)))"

text \<open>The Target Validator accepts the request's target.\<close>

definition validTarget :: "platform \<Rightarrow> request \<Rightarrow> bool" where
  "validTarget P req =
     (getTargetFromRequest P req \<noteq> [] \<and> isHttpHttps P (getTargetFromRequest P req) \<and>
      \<not> isBlockedPrivateHost P (getTargetFromRequest P req))"

text \<open>
  The outbound call of a forwarded request: its method (\<open>req.method || "GET"\<close>), its
  body (none for GET and HEAD, otherwise what the request stream delivers), the argument
  of \<open>fetch\<close>, and what the handler leaves behind once \<open>fetch\<close> has settled.
\<close>

definition upstreamMethod :: "request \<Rightarrow> string" where
  "upstreamMethod req = (if req_method req = [] then ''GET'' else req_method req)"

definition upstreamBody :: "request \<Rightarrow> string + string option" where
  "upstreamBody req =
     (if upstreamMethod req = ''GET'' \<or> upstreamMethod req = ''HEAD'' then Inr None
      else case req_body req of Inl e \<Rightarrow> Inl e | Inr b \<Rightarrow> Inr (Some b))"

definition upstreamInit :: "platform \<Rightarrow> request \<Rightarrow> string option \<Rightarrow> fetch_init" where
  "upstreamInit P req body =
     \<lparr>f_target = getTargetFromRequest P req, f_method = upstreamMethod req,
      f_headers = scrubRequestHeaders (req_headers req), f_body = body,
      f_redirect = ''manual''\<rparr>"

definition forwarded :: "platform \<Rightarrow> config \<Rightarrow> request \<Rightarrow> string option \<Rightarrow> rl_bucket \<Rightarrow> outcome" where
  "forwarded P cfg req body rlBucket =
     \<lparr>out_res =
        (case fetch P (upstreamInit P req body) of
           Inl msg \<Rightarrow> fail (reflectCors cfg req newResponse) 502 (''Upstream fetch failed: '' @ msg)
         | Inr up \<Rightarrow> relay cfg req (reflectCors cfg req newResponse) up),
      out_bucket = rlBucket, out_fetches = [upstreamInit P req body], out_thrown = None\<rparr>"

text \<open>
  The request passes the four stateless checks, its target is accepted, and the outbound
  call answers with \<open>up\<close>, whose body can be read.
\<close>

definition succeeds :: "platform \<Rightarrow> config \<Rightarrow> request \<Rightarrow> upstream \<Rightarrow> bool" where
  "succeeds P cfg req up =
     (req_method req \<noteq> ''OPTIONS'' \<and> passesPolicy cfg req \<and> validTarget P req \<and>
      (case upstreamBody req of
         Inl e \<Rightarrow> False
       | Inr body \<Rightarrow> fetch P (upstreamInit P req body) = Inr up) \<and>
      (case up_body up of Inl e \<Rightarrow> False | Inr buf \<Rightarrow> True))"

text \<open>
  The header a client is to receive under the lower-case name \<open>ln\<close> when the upstream
  response \<open>up\<close> is relayed: the proxy's own CORS value if \<open>ln\<close> is one of its CORS headers;
  nothing if \<open>ln\<close> is hop-by-hop or starts with \<open>access-control-\<close>; otherwise the value the
  upstream response gives for \<open>ln\<close>.
\<close>

definition relayedHeader :: "config \<Rightarrow> request \<Rightarrow> upstream \<Rightarrow> string \<Rightarrow> string option" where
  "relayedHeader cfg req up ln =
     (case map_of (corsHeaders cfg req) ln of
        Some v \<Rightarrow> Some v
      | None \<Rightarrow>
          if ln \<in> set hopByHopHeaders \<or> startsWith ln ''access-control-''
          then None
          else map_of (up_headers up) ln)"

text \<open>
  What the two loops of the code and the second \<open>reflectCors\<close> leave under \<open>ln\<close>, for any
  list of upstream entries: \<open>scrubResponseHeaders\<close> collects the entries in a plain object,
  which keeps the later value of a name that comes twice and takes no \<open>__proto__\<close> entry.
\<close>

definition sentHeader :: "config \<Rightarrow> request \<Rightarrow> upstream \<Rightarrow> string \<Rightarrow> string option" where
  "sentHeader cfg req up ln =
     (case map_of (corsHeaders cfg req) ln of
        Some v \<Rightarrow> Some v
      | None \<Rightarrow>
          if ln \<in> set hopByHopHeaders \<or> startsWith ln ''access-control-'' \<or> ln = ''__proto__''
          then None
          else map_of (rev (up_headers up)) ln)"

text \<open>The response the wrapper sends by itself when it finds no http(s) target.\<close>

definition wrapper_error :: response where
  "wrapper_error =
     end_res
       (setHeader (newResponse\<lparr>statusCode := 400\<rparr>)
          ''Content-Type'' ''application/json; charset=utf-8'')
       (Text (JSON_stringify (JObject
          [(''error'',
            JString ''Provide target via ?url= or /api/proxy/<url>, only http(s) allowed.'')])))"

text \<open>The 400 response of the variant with health endpoints.\<close>

definition wrapper_health_error :: response where
  "wrapper_health_error =
     end_res
       (setHeader (newResponse\<lparr>statusCode := 400\<rparr>)
          ''Content-Type'' ''application/json; charset=utf-8'')
       (Text (JSON_stringify (JObject
          [(''error'',
            JString ''Provide target via ?url= or /api/proxy/<url>, only http(s) allowed.''),
           (''example'', JString ''/api/proxy?url=https%3A%2F%2Fhttpbin.org%2Fget'')])))"

text \<open>The response every rejection of the handler sends, and what it leaves behind.\<close>

definition rejected :: "config \<Rightarrow> request \<Rightarrow> nat \<Rightarrow> string \<Rightarrow> rl_bucket \<Rightarrow> outcome" where
  "rejected cfg req code msg rlBucket =
     finish (fail (reflectCors cfg req newResponse) code msg) rlBucket"

text \<open>The dotted-decimal text of an IPv4 address.\<close>

definition dotted :: "nat \<Rightarrow> nat \<Rightarrow> nat \<Rightarrow> nat \<Rightarrow> string" where
  "dotted a b c d = decimal a @ ''.'' @ decimal b @ ''.'' @ decimal c @ ''.'' @ decimal d"

section \<open>Inputs for the worked examples\<close>

text \<open>
  A stand-in for the runtime on the inputs of the examples: request URLs of the form
  \<open>/api/proxy?url=<target>\<close> with nothing to decode in the target, and targets of the form
  \<open>http://host/path\<close> with a lower-case host name and no port. Anything else does not
  parse. The host name is the text between \<open>http://\<close> and the next \<open>/\<close>, so an IPv6 literal
  keeps its square brackets, as in the \<open>hostname\<close> that \<open>new URL\<close> reports.
\<close>

definition example_newURL :: "string \<Rightarrow> string option \<Rightarrow> parsed_url option" where
  "example_newURL s base =
     (case base of
        Some b \<Rightarrow>
          if startsWith s ''/api/proxy?url=''
          then Some \<lparr>protocol = ''http:'', hostname = drop 7 b, pathname = ''/api/proxy'',
                     searchParam_url = Some (drop 15 s)\<rparr>
          else Some \<lparr>protocol = ''http:'', hostname = drop 7 b, pathname = s,
                     searchParam_url = None\<rparr>
      | None \<Rightarrow>
          if startsWith s ''http://''
          then Some \<lparr>protocol = ''http:'',
                     hostname = takeWhile (\<lambda>c. c \<noteq> CHR ''/'') (drop 7 s),
                     pathname = dropWhile (\<lambda>c. c \<noteq> CHR ''/'') (drop 7 s),
                     searchParam_url = None\<rparr>
          else None)"

text \<open>An upstream response with a hop-by-hop header, CORS headers of its own and a \<open>Vary\<close>.\<close>

definition example_upstream :: upstream where
  "example_upstream =
     \<lparr>up_status = 201,
      up_headers = [(''access-control-allow-origin'', ''https://other.example''),
                    (''connection'', ''keep-alive''),
                    (''transfer-encoding'', ''chunked''),
                    (''vary'', ''Accept-Encoding''),
                    (''x-test'', ''1'')],
      up_body = Inr ''abc''\<rparr>"

definition example_platform :: platform where
  "example_platform =
     \<lparr>newURL = example_newURL, decodeURIComponent = Some, fetch = (\<lambda>init. Inr example_upstream)\<rparr>"

text \<open>The configuration an empty environment gives.\<close>

definition default_config :: config where
  "default_config =
     \<lparr>allowlist = [], denylist = [], requiredHeaders = [], API_KEY = [],
      CORS_MAX_AGE = ''600'', credentials = False, rateLimitMax = 0\<rparr>"

text \<open>A request for \<open>target\<close> in query style, with no Origin header.\<close>

definition example_request :: "string \<Rightarrow> string \<Rightarrow> request" where
  "example_request m target =
     \<lparr>req_method = m, req_url = ''/api/proxy?url='' @ target,
      req_headers = [(''host'', ''proxy.example'')],
      req_remoteAddress = Some ''203.0.113.7'', req_body = Inr []\<rparr>"

text \<open>A preflight request that asks for the header \<open>x-custom\<close>.\<close>

definition example_preflight :: request where
  "example_preflight =
     \<lparr>req_method = ''OPTIONS'', req_url = ''/api/proxy?url=http://93.184.216.34/'',
      req_headers = [(''origin'', ''https://app.example''),
                     (''access-control-request-headers'', ''x-custom'')],
      req_remoteAddress = Some ''203.0.113.7'', req_body = Inr []\<rparr>"

text \<open>A configuration with every policy switched on, and a table in which the client of the
  examples has used up its quota until time 600000.\<close>

definition strict_config :: config where
  "strict_config =
     \<lparr>allowlist = [''https://good.example''], denylist = [''https://app.example''],
      requiredHeaders = [''x-requested-with''], API_KEY = ''secret'',
      CORS_MAX_AGE = ''600'', credentials = False, rateLimitMax = 1\<rparr>"

definition full_bucket :: rl_bucket where
  "full_bucket = [''203.0.113.7'' \<mapsto> \<lparr>count = 1, reset = 600000\<rparr>]"

text \<open>A max-age of zero, and a preflight whose Access-Control-Request-Headers is empty.\<close>

definition zero_age_config :: config where
  "zero_age_config = default_config\<lparr>CORS_MAX_AGE := ''0''\<rparr>"

definition empty_acrh_preflight :: request where
  "empty_acrh_preflight =
     example_preflight\<lparr>req_headers := [(''access-control-request-headers'', [])]\<rparr>"

text \<open>Requests that differ in their headers only: each fails at a different check of
  \<open>strict_config\<close>, the last one at the rate limit.\<close>

definition policy_request :: "(string \<times> string) list \<Rightarrow> request" where
  "policy_request hs =
     \<lparr>req_method = ''GET'', req_url = ''/api/proxy?url=http://93.184.216.34/'',
      req_headers = hs, req_remoteAddress = Some ''203.0.113.7'', req_body = Inr []\<rparr>"

definition req_denied :: request where
  "req_denied = policy_request [(''origin'', ''https://app.example'')]"

definition req_not_allowed :: request where
  "req_not_allowed = policy_request [(''origin'', ''https://other.example'')]"

definition req_no_header :: request where
  "req_no_header = policy_request [(''origin'', ''https://GOOD.example'')]"

definition req_no_key :: request where
  "req_no_key = policy_request [(''origin'', ''https://good.example''), (''x-requested-with'', ''1'')]"

definition req_keyed :: request where
  "req_keyed = policy_request [(''origin'', ''https://good.example''), (''x-requested-with'', ''1''),
                               (''x-proxy-key'', ''secret'')]"

text \<open>Threshold 2, an upstream that answers 200, and a client behind a forwarding proxy.\<close>

definition limit2_config :: config where
  "limit2_config = default_config\<lparr>rateLimitMax := 2\<rparr>"

definition ok_upstream :: upstream where
  "ok_upstream = example_upstream\<lparr>up_status := 200\<rparr>"

definition ok_platform :: platform where
  "ok_platform = example_platform\<lparr>fetch := (\<lambda>init. Inr ok_upstream)\<rparr>"

definition limited_request :: request where
  "limited_request =
     (example_request ''GET'' ''http://93.184.216.34/'')
       \<lparr>req_headers := [(''x-forwarded-for'', '' 198.51.100.9 , 203.0.113.1'')]\<rparr>"

text \<open>Credentials mode, a redirecting upstream, and a request for a public address.\<close>

definition credentials_config :: config where
  "credentials_config = default_config\<lparr>credentials := True\<rparr>"

definition redirect_upstream :: upstream where
  "redirect_upstream =
     \<lparr>up_status = 302, up_headers = [(''location'', ''https://other.example/'')], up_body = Inr []\<rparr>"

definition redirect_platform :: platform where
  "redirect_platform = example_platform\<lparr>fetch := (\<lambda>init. Inr redirect_upstream)\<rparr>"

definition public_request :: request where
  "public_request = example_request ''GET'' ''http://93.184.216.34/''"

section \<open>Basic facts about responses\<close>

declare JSON_stringify.simps [simp del] JSON_members.simps [simp del]

lemma getHeader_setHeader [simp]:
  "getHeader (setHeader res k v) n = (if toLowerCase n = toLowerCase k then Some v else getHeader res n)"
  by (simp add: getHeader_def setHeader_def)

lemma statusCode_setHeader [simp]: "statusCode (setHeader res k v) = statusCode res"
  by (simp add: setHeader_def)

lemma res_body_setHeader [simp]: "res_body (setHeader res k v) = res_body res"
  by (simp add: setHeader_def)

lemma getHeader_end_res [simp]: "getHeader (end_res res b) n = getHeader res n"
  by (simp add: getHeader_def end_res_def)

lemma statusCode_end_res [simp]: "statusCode (end_res res b) = statusCode res"
  by (simp add: end_res_def)

lemma res_body_end_res [simp]: "res_body (end_res res b) = Some b"
  by (simp add: end_res_def)

lemma getHeader_statusCode_update [simp]: "getHeader (res\<lparr>statusCode := c\<rparr>) n = getHeader res n"
  by (simp add: getHeader_def)

lemma getHeader_newResponse [simp]: "getHeader newResponse n = None"
  by (simp add: getHeader_def newResponse_def)

lemma lc_names [simp]:
  "toLowerCase ''Access-Control-Allow-Origin'' = ''access-control-allow-origin''"
  "toLowerCase ''Vary'' = ''vary''"
  "toLowerCase ''Access-Control-Allow-Credentials'' = ''access-control-allow-credentials''"
  "toLowerCase ''Access-Control-Expose-Headers'' = ''access-control-expose-headers''"
  "toLowerCase ''Access-Control-Allow-Methods'' = ''access-control-allow-methods''"
  "toLowerCase ''Access-Control-Allow-Headers'' = ''access-control-allow-headers''"
  "toLowerCase ''Access-Control-Max-Age'' = ''access-control-max-age''"
  "toLowerCase ''Content-Type'' = ''content-type''"
  "toLowerCase ''access-control-allow-origin'' = ''access-control-allow-origin''"
  "toLowerCase ''vary'' = ''vary''"
  "toLowerCase ''access-control-allow-credentials'' = ''access-control-allow-credentials''"
  "toLowerCase ''access-control-expose-headers'' = ''access-control-expose-headers''"
  "toLowerCase ''access-control-allow-methods'' = ''access-control-allow-methods''"
  "toLowerCase ''access-control-allow-headers'' = ''access-control-allow-headers''"
  "toLowerCase ''access-control-max-age'' = ''access-control-max-age''"
  "toLowerCase ''content-type'' = ''content-type''"
  by code_simp+

section \<open>CORS headers, preflight and error responses\<close>

lemma reflectCors_carries: "carriesCors cfg req (reflectCors cfg req res)"
  by (simp add: carriesCors_def corsHeaders_def reflectCors_def Let_def)

lemma reflectCors_status [simp]: "statusCode (reflectCors cfg req res) = statusCode res"
  by (simp add: reflectCors_def Let_def)

lemma reflectCors_body [simp]: "res_body (reflectCors cfg req res) = res_body res"
  by (simp add: reflectCors_def Let_def)

lemma reflectCors_other:
  "toLowerCase n \<notin> fst ` set (corsHeaders cfg req) \<Longrightarrow> getHeader (reflectCors cfg req res) n = getHeader res n"
  by (auto simp add: corsHeaders_def reflectCors_def Let_def split: if_splits)

lemma reflectCors_idem: "reflectCors cfg req (reflectCors cfg req res) = reflectCors cfg req res"
  by (simp add: reflectCors_def Let_def setHeader_def)


lemma finish_sel [simp]:
  "out_res (finish res b) = res" "out_bucket (finish res b) = b"
  "out_fetches (finish res b) = []" "out_thrown (finish res b) = None"
  by (simp_all add: finish_def)

lemma handler_OPTIONS:
  "req_method req = ''OPTIONS'' \<Longrightarrow>
   handler P cfg t rlBucket req = finish (preflight cfg req (reflectCors cfg req newResponse)) rlBucket"
  by (simp add: handler_def)

lemma preflight_status [simp]: "statusCode (preflight cfg req res) = 204"
  by (simp add: preflight_def Let_def end_res_def)

lemma preflight_body [simp]: "res_body (preflight cfg req res) = Some NoBody"
  by (simp add: preflight_def Let_def)

lemma preflight_methods [simp]:
  "getHeader (preflight cfg req res) ''access-control-allow-methods'' =
     Some ''GET,HEAD,POST,PUT,PATCH,DELETE,OPTIONS''"
  by (simp add: preflight_def Let_def)

lemma preflight_max_age [simp]:
  "getHeader (preflight cfg req res) ''access-control-max-age'' =
     Some (String_number (num_or (parseInt10 (CORS_MAX_AGE cfg)) (Exact 600)))"
  by (simp add: preflight_def Let_def)

lemma reflectCors_allow_headers [simp]:
  "getHeader (reflectCors cfg req res) ''access-control-allow-headers'' =
     getHeader res ''access-control-allow-headers''"
  by (rule reflectCors_other) (simp add: corsHeaders_def)

lemma preflight_allow_headers:
  "getHeader (preflight cfg req (reflectCors cfg req newResponse)) ''access-control-allow-headers'' =
     (case header req ''access-control-request-headers'' of
        None \<Rightarrow> None
      | Some v \<Rightarrow> if v = [] then None else Some v)"
  by (simp add: preflight_def Let_def js_or_def split: option.splits)

lemma preflight_carries: "carriesCors cfg req (preflight cfg req res)"
  using reflectCors_carries [of cfg req res]
  by (auto simp add: preflight_def Let_def carriesCors_def corsHeaders_def list_all_iff split: if_splits)


lemma fail_isErrorResponse [simp]: "isErrorResponse (fail res code msg) code msg"
  by (simp add: isErrorResponse_def fail_def)

lemma fail_status [simp]: "statusCode (fail res code msg) = code"
  by (simp add: fail_def)

lemma fail_body [simp]:
  "res_body (fail res code msg) = Some (Text (JSON_stringify (JObject [(''error'', JString msg)])))"
  by (simp add: fail_def)

lemma fail_carries: "carriesCors cfg req res \<Longrightarrow> carriesCors cfg req (fail res code msg)"
  by (auto simp add: fail_def carriesCors_def corsHeaders_def list_all_iff split: if_splits)

lemma end_res_carries: "carriesCors cfg req res \<Longrightarrow> carriesCors cfg req (end_res res b)"
  by (simp add: carriesCors_def)

lemma relay_carries: "carriesCors cfg req (relay cfg req res up)"
proof (cases "up_body up")
  case (Inl msg)
  then show ?thesis
    by (simp add: relay_def Let_def fail_carries [OF reflectCors_carries])
next
  case (Inr buf)
  then show ?thesis
    by (simp add: relay_def Let_def end_res_carries [OF reflectCors_carries])
qed

section \<open>The handler, check by check\<close>

lemma handler_unfold:
  "handler P cfg t rlBucket req =
     (if req_method req = ''OPTIONS''
      then finish (preflight cfg req (reflectCors cfg req newResponse)) rlBucket
      else
        let res = reflectCors cfg req newResponse;
            origin' = toLowerCase (js_or (header req ''origin'') [])
        in if originDenied cfg req
           then finish (fail res 403 ''Origin denied.'') rlBucket
           else if originNotAllowed cfg req
           then finish (fail res 403 ''Origin not allowed.'') rlBucket
           else
             case missingRequiredHeader cfg req of
               Some rh \<Rightarrow> finish (fail res 400 (''Missing required header: '' @ rh)) rlBucket
             | None \<Rightarrow>
                 if unauthorized cfg req
                 then finish (fail res 401 ''Invalid or missing API key.'') rlBucket
                 else
                   let ip = getClientIP req;
                       allowed = rateLimitAllow (rateLimitMax cfg) t rlBucket ip;
                       rlBucket' = snd allowed
                   in if \<not> fst allowed
                      then finish (fail res 429 ''Rate limit exceeded. Try later.'') rlBucket'
                      else
                        let target = getTargetFromRequest P req
                        in if target = []
                           then finish
                                  (fail res 400
                                     ''Provide a target URL via ?url= or path /api/proxy/<url>.'')
                                  rlBucket'
                           else if \<not> isHttpHttps P target
                           then finish (fail res 400 ''Only http(s) URLs are allowed.'') rlBucket'
                           else if isBlockedPrivateHost P target
                           then finish (fail res 403 ''Target host is blocked.'') rlBucket'
                           else
                             let method = (if req_method req = ''GET'' \<or> req_method req = ''HEAD''
                                           then req_method req
                                           else js_or (Some (req_method req)) ''GET'');
                                 upstreamHeaders = scrubRequestHeaders (req_headers req);
                                 body = (if method = ''GET'' \<or> method = ''HEAD'' then Inr None
                                         else case req_body req of
                                                Inl e \<Rightarrow> Inl e
                                              | Inr b \<Rightarrow> Inr (Some b))
                             in (case body of
                                  Inl e \<Rightarrow>
                                    \<lparr>out_res = res, out_bucket = rlBucket', out_fetches = [],
                                     out_thrown = Some e\<rparr>
                                | Inr b \<Rightarrow>
                                    let init = \<lparr>f_target = target, f_method = method,
                                                f_headers = upstreamHeaders, f_body = b,
                                                f_redirect = ''manual''\<rparr>
                                    in \<lparr>out_res =
                                          (case fetch P init of
                                             Inl msg \<Rightarrow>
                                               fail res 502 (''Upstream fetch failed: '' @ msg)
                                           | Inr up \<Rightarrow> relay cfg req res up),
                                        out_bucket = rlBucket', out_fetches = [init],
                                        out_thrown = None\<rparr>))"
  unfolding handler_def originDenied_def originNotAllowed_def requestOrigin_def
    missingRequiredHeader_def unauthorized_def Let_def
  by (rule refl)

lemma handler_denied:
  "req_method req \<noteq> ''OPTIONS'' \<Longrightarrow> originDenied cfg req \<Longrightarrow>
   handler P cfg t rlBucket req = rejected cfg req 403 ''Origin denied.'' rlBucket"
  by (simp add: handler_unfold rejected_def Let_def)

lemma handler_not_allowed:
  "req_method req \<noteq> ''OPTIONS'' \<Longrightarrow> \<not> originDenied cfg req \<Longrightarrow> originNotAllowed cfg req \<Longrightarrow>
   handler P cfg t rlBucket req = rejected cfg req 403 ''Origin not allowed.'' rlBucket"
  by (simp add: handler_unfold rejected_def Let_def)

lemma handler_missing_header:
  "req_method req \<noteq> ''OPTIONS'' \<Longrightarrow> \<not> originDenied cfg req \<Longrightarrow> \<not> originNotAllowed cfg req \<Longrightarrow>
   missingRequiredHeader cfg req = Some rh \<Longrightarrow>
   handler P cfg t rlBucket req = rejected cfg req 400 (''Missing required header: '' @ rh) rlBucket"
  by (simp add: handler_unfold rejected_def Let_def)

lemma handler_unauthorized:
  "req_method req \<noteq> ''OPTIONS'' \<Longrightarrow> \<not> originDenied cfg req \<Longrightarrow> \<not> originNotAllowed cfg req \<Longrightarrow>
   missingRequiredHeader cfg req = None \<Longrightarrow> unauthorized cfg req \<Longrightarrow>
   handler P cfg t rlBucket req = rejected cfg req 401 ''Invalid or missing API key.'' rlBucket"
  by (simp add: handler_unfold rejected_def Let_def)

lemma handler_rate_limited:
  "req_method req \<noteq> ''OPTIONS'' \<Longrightarrow> passesPolicy cfg req \<Longrightarrow>
   \<not> fst (rateLimitAllow (rateLimitMax cfg) t rlBucket (getClientIP req)) \<Longrightarrow>
   handler P cfg t rlBucket req =
     rejected cfg req 429 ''Rate limit exceeded. Try later.''
       (snd (rateLimitAllow (rateLimitMax cfg) t rlBucket (getClientIP req)))"
  by (simp add: handler_unfold rejected_def passesPolicy_def Let_def)

lemma handler_missing_target:
  "admitted cfg t rlBucket req \<Longrightarrow> getTargetFromRequest P req = [] \<Longrightarrow>
   handler P cfg t rlBucket req =
     rejected cfg req 400 ''Provide a target URL via ?url= or path /api/proxy/<url>.''
       (snd (rateLimitAllow (rateLimitMax cfg) t rlBucket (getClientIP req)))"
  by (simp add: handler_unfold rejected_def admitted_def passesPolicy_def Let_def)

lemma handler_invalid_scheme:
  "admitted cfg t rlBucket req \<Longrightarrow> getTargetFromRequest P req \<noteq> [] \<Longrightarrow>
   \<not> isHttpHttps P (getTargetFromRequest P req) \<Longrightarrow>
   handler P cfg t rlBucket req =
     rejected cfg req 400 ''Only http(s) URLs are allowed.''
       (snd (rateLimitAllow (rateLimitMax cfg) t rlBucket (getClientIP req)))"
  by (simp add: handler_unfold rejected_def admitted_def passesPolicy_def Let_def)

lemma handler_blocked:
  "admitted cfg t rlBucket req \<Longrightarrow> getTargetFromRequest P req \<noteq> [] \<Longrightarrow>
   isHttpHttps P (getTargetFromRequest P req) \<Longrightarrow>
   isBlockedPrivateHost P (getTargetFromRequest P req) \<Longrightarrow>
   handler P cfg t rlBucket req =
     rejected cfg req 403 ''Target host is blocked.''
       (snd (rateLimitAllow (rateLimitMax cfg) t rlBucket (getClientIP req)))"
  by (simp add: handler_unfold rejected_def admitted_def passesPolicy_def Let_def)

lemma rejected_sel [simp]:
  "out_res (rejected cfg req code msg b) = fail (reflectCors cfg req newResponse) code msg"
  "out_bucket (rejected cfg req code msg b) = b"
  "out_fetches (rejected cfg req code msg b) = []"
  "out_thrown (rejected cfg req code msg b) = None"
  by (simp_all add: rejected_def)

lemma handler_carries: "carriesCors cfg req (out_res (handler P cfg t rlBucket req))"
  by (simp add: handler_def Let_def preflight_carries fail_carries reflectCors_carries relay_carries
      split: option.splits sum.splits)

lemma relay_text_body:
  assumes "res_body (relay cfg req res up) = Some (Text str)"
  shows "\<exists>msg. isErrorResponse (relay cfg req res up) 502 msg"
proof (cases "up_body up")
  case (Inl m)
  then have "relay cfg req res up =
      fail (reflectCors cfg req (copyResponseHeaders (res\<lparr>statusCode := up_status up\<rparr>)
             (scrubResponseHeaders (up_headers up)))) 502 (''Upstream fetch failed: '' @ m)"
    by (simp add: relay_def Let_def)
  then show ?thesis
    using fail_isErrorResponse by metis
next
  case (Inr buf)
  with assms show ?thesis
    by (simp add: relay_def Let_def)
qed

lemma relay_buffer_body:
  "up_body up = Inr buf \<Longrightarrow> res_body (relay cfg req res up) = Some (Buffer buf)"
  by (simp add: relay_def Let_def)

section \<open>The outcomes of the handler\<close>

lemma upstreamMethod_eq:
  "(if req_method req = ''GET'' \<or> req_method req = ''HEAD'' then req_method req
    else js_or (Some (req_method req)) ''GET'') = upstreamMethod req"
  by (auto simp add: upstreamMethod_def js_or_def)

lemma handler_forward:
  assumes "admitted cfg t rlBucket req" and "validTarget P req"
  shows "handler P cfg t rlBucket req =
     (case upstreamBody req of
        Inl e \<Rightarrow> \<lparr>out_res = reflectCors cfg req newResponse,
                   out_bucket = snd (rateLimitAllow (rateLimitMax cfg) t rlBucket (getClientIP req)),
                   out_fetches = [], out_thrown = Some e\<rparr>
      | Inr body \<Rightarrow> forwarded P cfg req body
                      (snd (rateLimitAllow (rateLimitMax cfg) t rlBucket (getClientIP req))))"
proof -
  from assms have c: "req_method req \<noteq> ''OPTIONS''" "\<not> originDenied cfg req"
    "\<not> originNotAllowed cfg req" "missingRequiredHeader cfg req = None" "\<not> unauthorized cfg req"
    "fst (rateLimitAllow (rateLimitMax cfg) t rlBucket (getClientIP req))"
    "getTargetFromRequest P req \<noteq> []" "isHttpHttps P (getTargetFromRequest P req)"
    "\<not> isBlockedPrivateHost P (getTargetFromRequest P req)"
    by (simp_all add: admitted_def passesPolicy_def validTarget_def)
  show ?thesis
    by (simp add: handler_unfold c Let_def upstreamMethod_eq upstreamBody_def forwarded_def
        upstreamInit_def split: sum.split)
qed


lemma handler_outcome:
  obtains (preflight)
      "handler P cfg t rlBucket req =
         finish (preflight cfg req (reflectCors cfg req newResponse)) rlBucket"
  | (rejected) code msg b where "code \<in> {400, 401, 403, 429}"
      "handler P cfg t rlBucket req = rejected cfg req code msg b"
  | (thrown) e b where
      "handler P cfg t rlBucket req =
         \<lparr>out_res = reflectCors cfg req newResponse, out_bucket = b, out_fetches = [],
          out_thrown = Some e\<rparr>"
  | (forwarded) body b where "handler P cfg t rlBucket req = forwarded P cfg req body b"
proof (cases "req_method req = ''OPTIONS''")
  case True
  then show thesis using preflight handler_OPTIONS by blast
next
  case m: False
  show thesis
  proof (cases "passesPolicy cfg req")
    case False
    then consider "originDenied cfg req"
      | "\<not> originDenied cfg req" "originNotAllowed cfg req"
      | rh where "\<not> originDenied cfg req" "\<not> originNotAllowed cfg req"
          "missingRequiredHeader cfg req = Some rh"
      | "\<not> originDenied cfg req" "\<not> originNotAllowed cfg req"
          "missingRequiredHeader cfg req = None" "unauthorized cfg req"
      by (auto simp add: passesPolicy_def)
    then show thesis
    proof cases
      case 1
      then show thesis using rejected [of 403] handler_denied [OF m] by simp
    next
      case 2
      then show thesis using rejected [of 403] handler_not_allowed [OF m] by simp
    next
      case 3
      then show thesis using rejected [of 400] handler_missing_header [OF m] by simp
    next
      case 4
      then show thesis using rejected [of 401] handler_unauthorized [OF m] by simp
    qed
  next
    case p: True
    show thesis
    proof (cases "admitted cfg t rlBucket req")
      case False
      with m p have "\<not> fst (rateLimitAllow (rateLimitMax cfg) t rlBucket (getClientIP req))"
        by (simp add: admitted_def)
      then show thesis using rejected [of 429] handler_rate_limited [OF m p] by simp
    next
      case a: True
      show thesis
      proof (cases "validTarget P req")
        case True
        show thesis
        proof (cases "upstreamBody req")
          case (Inl e)
          then show thesis using thrown handler_forward [OF a True] by simp
        next
          case (Inr body)
          then show thesis using forwarded handler_forward [OF a True] by simp
        qed
      next
        case False
        then consider "getTargetFromRequest P req = []"
          | "getTargetFromRequest P req \<noteq> []" "\<not> isHttpHttps P (getTargetFromRequest P req)"
          | "getTargetFromRequest P req \<noteq> []" "isHttpHttps P (getTargetFromRequest P req)"
            "isBlockedPrivateHost P (getTargetFromRequest P req)"
          by (auto simp add: validTarget_def)
        then show thesis
        proof cases
          case 1
          then show thesis using rejected [of 400] handler_missing_target [OF a] by simp
        next
          case 2
          then show thesis using rejected [of 400] handler_invalid_scheme [OF a] by simp
        next
          case 3
          then show thesis using rejected [of 403] handler_blocked [OF a] by simp
        qed
      qed
    qed
  qed
qed

lemma forwarded_text_body:
  assumes "res_body (out_res (forwarded P cfg req body b)) = Some (Text str)"
  shows "\<exists>msg. isErrorResponse (out_res (forwarded P cfg req body b)) 502 msg"
proof (cases "fetch P (upstreamInit P req body)")
  case (Inl m)
  then have "out_res (forwarded P cfg req body b) =
      fail (reflectCors cfg req newResponse) 502 (''Upstream fetch failed: '' @ m)"
    by (simp add: forwarded_def)
  then show ?thesis using fail_isErrorResponse by metis
next
  case (Inr up)
  then have "out_res (forwarded P cfg req body b) = relay cfg req (reflectCors cfg req newResponse) up"
    by (simp add: forwarded_def)
  with assms show ?thesis using relay_text_body by metis
qed

lemma handler_text_body:
  assumes "res_body (out_res (handler P cfg t rlBucket req)) = Some (Text str)"
  shows "\<exists>code msg. code \<in> {400, 401, 403, 429, 502} \<and>
           isErrorResponse (out_res (handler P cfg t rlBucket req)) code msg"
proof (cases rule: handler_outcome [where P = P and cfg = cfg and t = t and rlBucket = rlBucket and req = req])
  case preflight
  with assms show ?thesis by simp
next
  case (rejected code msg b)
  then have "isErrorResponse (out_res (handler P cfg t rlBucket req)) code msg"
    by simp
  with rejected(1) show ?thesis by blast
next
  case (thrown e b)
  with assms show ?thesis by (simp add: newResponse_def)
next
  case (forwarded body b)
  with assms forwarded_text_body [of P cfg req body b str] show ?thesis by auto
qed

section \<open>Decimal numbers\<close>

lemma of_char_digit_char: "d < 10 \<Longrightarrow> of_char (digit_char d) = 48 + d"
  by (simp add: digit_char_def)

lemma isDigit_digit_char: "d < 10 \<Longrightarrow> isDigit (digit_char d)"
  by (simp add: isDigit_def of_char_digit_char)

lemma isDigit_not_space: "isDigit c \<Longrightarrow> \<not> isSpace c"
  by (auto simp add: isDigit_def isSpace_def Let_def)

lemma isDigit_not_sign: "isDigit c \<Longrightarrow> c \<noteq> CHR ''-'' \<and> c \<noteq> CHR ''+'' \<and> c \<noteq> CHR ''.''"
  by (auto simp add: isDigit_def Let_def)

lemma decimal_digits: "c \<in> set (decimal n) \<Longrightarrow> isDigit c"
proof (induction n arbitrary: c rule: decimal.induct)
  case (1 n)
  show ?case
  proof (cases "n < 10")
    case True
    with "1.prems" show ?thesis
      by (simp add: decimal.simps [of n] isDigit_digit_char)
  next
    case False
    with "1.prems" "1.IH" show ?thesis
      by (auto simp add: decimal.simps [of n] isDigit_digit_char)
  qed
qed

lemma decimal_nonempty: "decimal n \<noteq> []"
  by (subst decimal.simps) simp

lemma digits_value_snoc: "digits_value (ds @ [c]) = 10 * digits_value ds + (of_char c - 48)"
  by (simp add: digits_value_def)

lemma digits_value_decimal: "digits_value (decimal n) = n"
proof (induction n rule: decimal.induct)
  case (1 n)
  show ?case
  proof (cases "n < 10")
    case True
    then show ?thesis
      by (simp add: decimal.simps [of n] digits_value_def of_char_digit_char)
  next
    case False
    with "1.IH" show ?thesis
      by (simp add: decimal.simps [of n] digits_value_snoc of_char_digit_char)
  qed
qed

lemma parseInt10_decimal:
  assumes "n \<le> 2 ^ 53"
  shows "parseInt10 (decimal n) = Exact (int n)"
proof -
  obtain c cs where d: "decimal n = c # cs"
    using decimal_nonempty [of n] by (cases "decimal n") auto
  have all: "\<forall>x \<in> set (decimal n). isDigit x"
    using decimal_digits by blast
  with d have c: "isDigit c" by simp
  have 1: "dropWhile isSpace (decimal n) = decimal n"
    using c d by (simp add: isDigit_not_space)
  have 2: "takeWhile isDigit (decimal n) = decimal n"
    using all by (simp add: takeWhile_eq_all_conv)
  have 3: "hd (decimal n) \<noteq> CHR ''-''" "hd (decimal n) \<noteq> CHR ''+''"
    using c d isDigit_not_sign [OF c] by simp_all
  show ?thesis
    unfolding parseInt10_def Let_def 1
    using 3 decimal_nonempty [of n] digits_value_decimal [of n] assms
    by (simp add: 2)
qed

lemma String_number_of_nat: "String_number (Exact (int n)) = decimal n"
  by (simp add: String_number_def)

lemma max_age_decimal:
  "0 < n \<Longrightarrow> n \<le> 2 ^ 53 \<Longrightarrow>
   String_number (num_or (parseInt10 (decimal n)) (Exact 600)) = decimal n"
  by (simp add: parseInt10_decimal num_or_def String_number_of_nat)

lemma decimal_600: "decimal 600 = ''600''"
  by code_simp

lemma max_age_fallback:
  "parseInt10 s = NaN \<or> parseInt10 s = Exact 0 \<Longrightarrow>
   String_number (num_or (parseInt10 s) (Exact 600)) = ''600''"
  using String_number_of_nat [of 600] by (auto simp add: num_or_def decimal_600)


section \<open>Credentials mode\<close>

text \<open>
  Claim C7 says that in credentials mode the allowed origin is the request's Origin value and
  never the wildcard, also for a request without an Origin header. The code does otherwise:
  \<open>reflectCors\<close> falls back to \<open>*\<close> when the header is missing, so with credentials enabled
  every response to such a request, whatever path the handler takes, carries
  \<open>Access-Control-Allow-Origin: *\<close> together with \<open>Access-Control-Allow-Credentials: true\<close> and
  \<open>Vary: Origin\<close>.
\<close>

theorem C7_wildcard_origin_with_credentials:
  assumes "credentials cfg" and "header req ''origin'' = None"
  shows "getHeader (out_res (handler P cfg t rlBucket req)) ''access-control-allow-origin'' = Some ''*'' \<and>
         getHeader (out_res (handler P cfg t rlBucket req)) ''access-control-allow-credentials'' = Some ''true'' \<and>
         getHeader (out_res (handler P cfg t rlBucket req)) ''vary'' = Some ''Origin''"
  using handler_carries [of cfg req P t rlBucket] assms
  by (simp add: carriesCors_def corsHeaders_def js_or_def)

lemma example_request_no_origin: "header (example_request m target) ''origin'' = None"
  by (simp add: header_def example_request_def)

text \<open>The same at a concrete request: a GET with a Host header only.\<close>

theorem C7_wildcard_origin_with_credentials_witness:
  "credentials (default_config\<lparr>credentials := True\<rparr>) \<and>
   header (example_request ''GET'' ''http://93.184.216.34/'') ''origin'' = None \<and>
   getHeader (out_res (handler example_platform (default_config\<lparr>credentials := True\<rparr>) 0 Map.empty
       (example_request ''GET'' ''http://93.184.216.34/''))) ''access-control-allow-origin'' = Some ''*'' \<and>
   getHeader (out_res (handler example_platform (default_config\<lparr>credentials := True\<rparr>) 0 Map.empty
       (example_request ''GET'' ''http://93.184.216.34/''))) ''access-control-allow-credentials'' = Some ''true''"
  using C7_wildcard_origin_with_credentials [of "default_config\<lparr>credentials := True\<rparr>"
      "example_request ''GET'' ''http://93.184.216.34/''" example_platform 0 Map.empty]
  by (simp add: example_request_no_origin)

lemma credentials_reflect_origin:
  assumes "credentials cfg" and "header req ''origin'' = Some origin" and "origin \<noteq> []"
  shows "getHeader (out_res (handler P cfg t rlBucket req)) ''access-control-allow-origin'' = Some origin"
  using handler_carries [of cfg req P t rlBucket] assms
  by (simp add: carriesCors_def corsHeaders_def js_or_def)

section \<open>Preflight\<close>

text \<open>
  Claim C5, as the code has it. For every OPTIONS request the response has status 204 and an
  empty body, \<open>Access-Control-Allow-Methods\<close> is the fixed list, the inbound
  \<open>Access-Control-Request-Headers\<close> value is echoed into \<open>Access-Control-Allow-Headers\<close> when it
  is present and not empty (and the header is absent otherwise), and \<open>Access-Control-Max-Age\<close>
  is the configured number when \<open>CORS_MAX_AGE\<close> is the decimal text of a positive integer that
  a JavaScript number holds exactly (up to \<open>2^53\<close>), and 600 when \<open>CORS_MAX_AGE\<close> does not
  parse as a number. The CORS headers are present, no outbound call is made, and the
  rate-limit table is left as it was. Nothing is stated here for a configured value of zero
  or beyond \<open>2^53\<close>.
\<close>

theorem C5_preflight_response:
  assumes "req_method req = ''OPTIONS''"
  shows "statusCode (out_res (handler P cfg t rlBucket req)) = 204 \<and>
         res_body (out_res (handler P cfg t rlBucket req)) = Some NoBody \<and>
         getHeader (out_res (handler P cfg t rlBucket req)) ''access-control-allow-methods'' =
           Some ''GET,HEAD,POST,PUT,PATCH,DELETE,OPTIONS'' \<and>
         getHeader (out_res (handler P cfg t rlBucket req)) ''access-control-allow-headers'' =
           (case header req ''access-control-request-headers'' of
              None \<Rightarrow> None
            | Some v \<Rightarrow> if v = [] then None else Some v) \<and>
         (\<forall>n. 0 < n \<and> n \<le> 2 ^ 53 \<and> CORS_MAX_AGE cfg = decimal n \<longrightarrow>
            getHeader (out_res (handler P cfg t rlBucket req)) ''access-control-max-age'' =
              Some (decimal n)) \<and>
         (parseInt10 (CORS_MAX_AGE cfg) = NaN \<longrightarrow>
            getHeader (out_res (handler P cfg t rlBucket req)) ''access-control-max-age'' =
              Some ''600'') \<and>
         carriesCors cfg req (out_res (handler P cfg t rlBucket req)) \<and>
         out_fetches (handler P cfg t rlBucket req) = [] \<and>
         out_bucket (handler P cfg t rlBucket req) = rlBucket \<and>
         out_thrown (handler P cfg t rlBucket req) = None"
  using assms max_age_fallback [of "CORS_MAX_AGE cfg"]
  by (auto simp add: handler_OPTIONS preflight_allow_headers preflight_carries max_age_decimal)

lemma example_preflight_sel:
  "req_method example_preflight = ''OPTIONS''"
  "header example_preflight ''origin'' = Some ''https://app.example''"
  "header example_preflight ''access-control-request-headers'' = Some ''x-custom''"
  by (simp_all add: example_preflight_def header_def)

lemma strict_config_denies: "originDenied strict_config example_preflight"
  by code_simp
lemma strict_config_not_allowed:  "originNotAllowed strict_config example_preflight"
  by code_simp
lemma strict_config_missing_header:  "missingRequiredHeader strict_config example_preflight = Some ''x-requested-with''"
  by code_simp
lemma strict_config_unauthorized:  "unauthorized strict_config example_preflight"
  by code_simp
lemma example_preflight_ip: "getClientIP example_preflight = ''203.0.113.7''"
  by code_simp
lemma full_bucket_limits: "\<not> fst (rateLimitAllow (rateLimitMax strict_config) 1000 full_bucket ''203.0.113.7'')"
  by (simp add: rateLimitAllow_def strict_config_def full_bucket_def Let_def)


lemma strict_config_limits: "\<not> fst (rateLimitAllow (rateLimitMax strict_config) 1000 full_bucket (getClientIP example_preflight))"
  unfolding example_preflight_ip by (rule full_bucket_limits)

text \<open>
  The preflight of the specification's example: \<open>Access-Control-Request-Headers: x-custom\<close>
  under the default configuration.
\<close>

theorem C5_preflight_response_witness:
  "req_method example_preflight = ''OPTIONS'' \<and>
   statusCode (out_res (handler example_platform default_config 0 Map.empty example_preflight)) = 204 \<and>
   res_body (out_res (handler example_platform default_config 0 Map.empty example_preflight)) = Some NoBody \<and>
   getHeader (out_res (handler example_platform default_config 0 Map.empty example_preflight))
     ''access-control-allow-headers'' = Some ''x-custom'' \<and>
   getHeader (out_res (handler example_platform default_config 0 Map.empty example_preflight))
     ''access-control-max-age'' = Some ''600'' \<and>
   out_fetches (handler example_platform default_config 0 Map.empty example_preflight) = []"
proof -
  note th = C5_preflight_response [OF example_preflight_sel(1),
      where P = example_platform and cfg = default_config and t = 0 and rlBucket = Map.empty]
  have age: "CORS_MAX_AGE default_config = decimal 600"
    by (simp add: default_config_def decimal_600)
  have bound: "(0::nat) < 600 \<and> (600::nat) \<le> 2 ^ 53"
    by simp
  from th age bound
  have ma: "getHeader (out_res (handler example_platform default_config 0 Map.empty example_preflight))
      ''access-control-max-age'' = Some (decimal 600)"
    by blast
  show ?thesis
    using th ma
    by (simp only: example_preflight_sel option.case list.simps if_False simp_thms decimal_600)
qed

lemma parseInt10_zero: "parseInt10 ''0'' = Exact 0"
  by code_simp

text \<open>
  Where the claim as written fails. The guard \<open>if (reqHeaders)\<close> leaves out an
  \<open>Access-Control-Request-Headers\<close> header that is present but empty: it is not echoed. And a
  configured max-age of 0 is answered with 600, since \<open>||\<close> takes the number 0 for a missing
  value.
\<close>

theorem C5_preflight_counterexample:
  "header empty_acrh_preflight ''access-control-request-headers'' = Some [] \<and>
   getHeader (out_res (handler example_platform zero_age_config 0 Map.empty empty_acrh_preflight))
     ''access-control-allow-headers'' = None \<and>
   CORS_MAX_AGE zero_age_config = ''0'' \<and>
   getHeader (out_res (handler example_platform zero_age_config 0 Map.empty empty_acrh_preflight))
     ''access-control-max-age'' = Some ''600''"
proof -
  have m: "req_method empty_acrh_preflight = ''OPTIONS''"
    by (simp add: empty_acrh_preflight_def example_preflight_def)
  have h: "header empty_acrh_preflight ''access-control-request-headers'' = Some []"
    by (simp add: empty_acrh_preflight_def header_def)
  have c: "CORS_MAX_AGE zero_age_config = ''0''"
    by (simp add: zero_age_config_def)
  have a: "String_number (num_or (parseInt10 ''0'') (Exact 600)) = ''600''"
    by (rule max_age_fallback) (simp add: parseInt10_zero)
  show ?thesis
    by (simp add: handler_OPTIONS [OF m] preflight_allow_headers h a c)
qed

lemma preflight_cong:
  assumes "header req ''origin'' = header req' ''origin''"
    and "header req ''access-control-request-headers'' = header req' ''access-control-request-headers''"
    and "credentials cfg = credentials cfg'" and "CORS_MAX_AGE cfg = CORS_MAX_AGE cfg'"
  shows "preflight cfg req (reflectCors cfg req newResponse) =
         preflight cfg' req' (reflectCors cfg' req' newResponse)"
  using assms by (simp add: preflight_def reflectCors_def Let_def)

text \<open>
  Claim C10. The preflight response is sent before any check of the Policy Gate runs. Two
  OPTIONS requests that agree on the Origin and Access-Control-Request-Headers headers, under
  two configurations that agree on the credentials flag and the max-age, get the same
  response, status 204 with an empty body, whatever the deny and allow lists, the required
  headers, the API key, the other headers of the requests, the clock and the rate-limit
  table are; the table is not touched and nothing is forwarded.
\<close>

theorem C10_preflight_ignores_policy:
  assumes "req_method req = ''OPTIONS''" and "req_method req' = ''OPTIONS''"
    and "header req ''origin'' = header req' ''origin''"
    and "header req ''access-control-request-headers'' = header req' ''access-control-request-headers''"
    and "credentials cfg = credentials cfg'" and "CORS_MAX_AGE cfg = CORS_MAX_AGE cfg'"
  shows "out_res (handler P cfg t rlBucket req) = out_res (handler P' cfg' t' rlBucket' req') \<and>
         statusCode (out_res (handler P cfg t rlBucket req)) = 204 \<and>
         res_body (out_res (handler P cfg t rlBucket req)) = Some NoBody \<and>
         out_bucket (handler P cfg t rlBucket req) = rlBucket \<and>
         out_fetches (handler P cfg t rlBucket req) = [] \<and>
         out_thrown (handler P cfg t rlBucket req) = None"
  using assms(1,2) preflight_cong [OF assms(3-6)]
  by (simp add: handler_OPTIONS)

text \<open>
  A preflight whose origin is denylisted and not allowlisted, which lacks the required header
  and the API key, and whose client has used up its quota, gets the response it gets under
  the default configuration.
\<close>

theorem C10_preflight_ignores_policy_witness:
  "req_method example_preflight = ''OPTIONS'' \<and>
   credentials default_config = credentials strict_config \<and>
   CORS_MAX_AGE default_config = CORS_MAX_AGE strict_config \<and>
   originDenied strict_config example_preflight \<and>
   unauthorized strict_config example_preflight \<and>
   \<not> fst (rateLimitAllow (rateLimitMax strict_config) 1000 full_bucket (getClientIP example_preflight)) \<and>
   out_res (handler example_platform default_config 0 Map.empty example_preflight) =
     out_res (handler example_platform strict_config 1000 full_bucket example_preflight) \<and>
   statusCode (out_res (handler example_platform default_config 0 Map.empty example_preflight)) = 204 \<and>
   out_bucket (handler example_platform default_config 0 Map.empty example_preflight) = Map.empty"
proof -
  have c: "credentials default_config = credentials strict_config"
    "CORS_MAX_AGE default_config = CORS_MAX_AGE strict_config"
    by (simp_all add: default_config_def strict_config_def)
  note m = example_preflight_sel(1)
  note th = C10_preflight_ignores_policy [OF m m refl refl c,
      where P = example_platform and t = 0 and rlBucket = Map.empty
        and P' = example_platform and t' = 1000 and rlBucket' = full_bucket]
  show ?thesis
    by (intro conjI)
      (rule m c strict_config_denies strict_config_unauthorized strict_config_limits th [THEN conjunct1] th [THEN conjunct2, THEN conjunct1]
         th [THEN conjunct2, THEN conjunct2, THEN conjunct2, THEN conjunct1])+
qed

section \<open>The forwarded outcome: status and body\<close>

lemma copyResponseHeaders_fold: "copyResponseHeaders res hs = foldl copyStep res hs"
proof -
  have "(\<lambda>r (k, v). if startsWith (toLowerCase k) ''access-control-'' then r else setHeader r k v) =
      copyStep"
    by (intro ext) (simp add: copyStep_def case_prod_unfold)
  then show ?thesis
    by (simp add: copyResponseHeaders_def)
qed

lemma copyStep_status [simp]: "statusCode (copyStep r kv) = statusCode r"
  by (simp add: copyStep_def)

lemma copyStep_body [simp]: "res_body (copyStep r kv) = res_body r"
  by (simp add: copyStep_def)

lemma foldl_copyStep_status: "statusCode (foldl copyStep res hs) = statusCode res"
  by (induction hs arbitrary: res) simp_all

lemma foldl_copyStep_body: "res_body (foldl copyStep res hs) = res_body res"
  by (induction hs arbitrary: res) simp_all

lemma copyResponseHeaders_status [simp]:
  "statusCode (copyResponseHeaders res hs) = statusCode res"
  by (simp add: copyResponseHeaders_fold foldl_copyStep_status)

lemma copyResponseHeaders_body [simp]:
  "res_body (copyResponseHeaders res hs) = res_body res"
  by (simp add: copyResponseHeaders_fold foldl_copyStep_body)

lemma relay_status: "up_body up = Inr buf \<Longrightarrow> statusCode (relay cfg req res up) = up_status up"
  by (simp add: relay_def Let_def)

lemma forwarded_sel [simp]:
  "out_bucket (forwarded P cfg req body b) = b"
  "out_fetches (forwarded P cfg req body b) = [upstreamInit P req body]"
  "out_thrown (forwarded P cfg req body b) = None"
  by (simp_all add: forwarded_def)

lemma forwarded_res:
  "fetch P (upstreamInit P req body) = Inr up \<Longrightarrow>
   out_res (forwarded P cfg req body b) = relay cfg req (reflectCors cfg req newResponse) up"
  by (simp add: forwarded_def)

section \<open>Target validation\<close>

lemma js_or_Some_nil [simp]: "js_or (Some s) [] = s"
  by (simp add: js_or_def)

lemma example_target:
  "getTargetFromRequest example_platform (example_request m target) = target"
  by (simp add: getTargetFromRequest_def example_platform_def example_newURL_def
      example_request_def startsWith_def Let_def)

lemma default_config_passes: "passesPolicy default_config req"
  by (simp add: passesPolicy_def originDenied_def originNotAllowed_def missingRequiredHeader_def
      unauthorized_def default_config_def)

lemma default_config_admits:
  "req_method req \<noteq> ''OPTIONS'' \<Longrightarrow> admitted default_config t rlBucket req"
proof -
  assume m: "req_method req \<noteq> ''OPTIONS''"
  have "rateLimitMax default_config = 0"
    by (simp add: default_config_def)
  with m show ?thesis
    by (simp add: admitted_def default_config_passes rateLimitAllow_def)
qed

lemma example_request_method [simp]: "req_method (example_request m target) = m"
  by (simp add: example_request_def)

lemma example_parse:
  "newURL example_platform ''http://127.0.0.1/'' None =
     Some \<lparr>protocol = ''http:'', hostname = ''127.0.0.1'', pathname = ''/'', searchParam_url = None\<rparr>"
  "newURL example_platform ''http://93.184.216.34/'' None =
     Some \<lparr>protocol = ''http:'', hostname = ''93.184.216.34'', pathname = ''/'', searchParam_url = None\<rparr>"
  "newURL example_platform ''http://fcdn.example.com/'' None =
     Some \<lparr>protocol = ''http:'', hostname = ''fcdn.example.com'', pathname = ''/'', searchParam_url = None\<rparr>"
  "newURL example_platform ''not-a-url'' None = None"
  by (simp_all add: example_platform_def example_newURL_def startsWith_def)

lemma lc_hosts:
  "toLowerCase ''127.0.0.1'' = ''127.0.0.1''"
  "toLowerCase ''93.184.216.34'' = ''93.184.216.34''"
  "toLowerCase ''fcdn.example.com'' = ''fcdn.example.com''"
  by code_simp+

lemma blocked_examples:
  "blockedHostname ''127.0.0.1''" "blockedHostname ''10.1.2.3''" "blockedHostname ''192.168.1.1''"
  "blockedHostname ''172.20.0.5''" "blockedHostname ''::1''" "blockedHostname ''fd00::1''"
  "\<not> blockedHostname ''93.184.216.34''" "blockedHostname ''fcdn.example.com''"
  "\<not> blockedHostname ''[::1]''" "\<not> blockedHostname ''[fd00::1]''"
  by code_simp+

lemma decimal_consts:
  "decimal 10 = ''10''" "decimal 192 = ''192''" "decimal 168 = ''168''" "decimal 172 = ''172''"
  "decimal 16 = ''16''" "decimal 17 = ''17''" "decimal 18 = ''18''" "decimal 19 = ''19''"
  "decimal 20 = ''20''" "decimal 21 = ''21''" "decimal 22 = ''22''" "decimal 23 = ''23''"
  "decimal 24 = ''24''" "decimal 25 = ''25''" "decimal 26 = ''26''" "decimal 27 = ''27''"
  "decimal 28 = ''28''" "decimal 29 = ''29''" "decimal 30 = ''30''" "decimal 31 = ''31''"
  by code_simp+

lemma blocked_10: "blockedHostname (dotted 10 b c d)"
  by (simp add: blockedHostname_def dotted_def decimal_consts startsWith_def)

lemma blocked_192_168: "blockedHostname (dotted 192 168 c d)"
  by (simp add: blockedHostname_def dotted_def decimal_consts startsWith_def)

lemma matches_172_dotted:
  assumes "16 \<le> b" and "b \<le> 31"
  shows "matches_172 (dotted 172 b c d)"
proof -
  from assms have "b = 16 \<or> b = 17 \<or> b = 18 \<or> b = 19 \<or> b = 20 \<or> b = 21 \<or> b = 22 \<or> b = 23 \<or>
      b = 24 \<or> b = 25 \<or> b = 26 \<or> b = 27 \<or> b = 28 \<or> b = 29 \<or> b = 30 \<or> b = 31"
    by arith
  then show ?thesis
    by (auto simp add: dotted_def decimal_consts isDigit_def)
qed

lemma blocked_172: "16 \<le> b \<Longrightarrow> b \<le> 31 \<Longrightarrow> blockedHostname (dotted 172 b c d)"
  by (simp add: blockedHostname_def matches_172_dotted)


lemma example_fetch: "fetch example_platform init = Inr example_upstream"
  by (simp add: example_platform_def)

lemma example_upstream_sel:
  "up_status example_upstream = 201" "up_body example_upstream = Inr ''abc''"
  by (simp_all add: example_upstream_def)

lemma example_GET_body: "upstreamBody (example_request ''GET'' target) = Inr None"
  by (simp add: upstreamBody_def upstreamMethod_def)

lemma example_GET_admitted:
  "admitted default_config t rlBucket (example_request ''GET'' target)"
  by (rule default_config_admits) simp

lemma isBlockedPrivateHost_parsed:
  "newURL P target None = Some u \<Longrightarrow>
   isBlockedPrivateHost P target = blockedHostname (toLowerCase (hostname u))"
  by (simp add: isBlockedPrivateHost_def)

lemma isHttpHttps_parsed:
  "newURL P target None = Some u \<Longrightarrow>
   isHttpHttps P target = (protocol u = ''http:'' \<or> protocol u = ''https:'')"
  by (simp add: isHttpHttps_def)

text \<open>
  The names and the IPv4 ranges of the guard. Take a request that has passed the Policy Gate
  and whose target parses as an http(s) URL. If the host name, lower-cased, is \<open>localhost\<close>,
  \<open>0.0.0.0\<close> or \<open>127.0.0.1\<close>, or is the dotted text of an address in 10.0.0.0/8,
  192.168.0.0/16 or 172.16.0.0/12 (second octet 16 to 31), the handler answers 403 "Target
  host is blocked." and makes no outbound call. If it is \<open>93.184.216.34\<close>, the target is
  accepted and the request goes on to the outbound call. The host name is the string the URL
  parser reports; the decision is a function of that string, lower-cased, and of nothing
  else, so nothing is resolved.
\<close>

lemma private_ipv4_hosts_rejected:
  assumes a: "admitted cfg t rlBucket req"
    and tg: "getTargetFromRequest P req \<noteq> []"
    and u: "newURL P (getTargetFromRequest P req) None = Some u"
    and pr: "protocol u = ''http:'' \<or> protocol u = ''https:''"
  shows "((toLowerCase (hostname u) \<in> {''localhost'', ''0.0.0.0'', ''127.0.0.1''} \<or>
           (\<exists>b c d. toLowerCase (hostname u) = dotted 10 b c d) \<or>
           (\<exists>c d. toLowerCase (hostname u) = dotted 192 168 c d) \<or>
           (\<exists>b c d. 16 \<le> b \<and> b \<le> 31 \<and> toLowerCase (hostname u) = dotted 172 b c d)) \<longrightarrow>
          handler P cfg t rlBucket req =
            rejected cfg req 403 ''Target host is blocked.''
              (snd (rateLimitAllow (rateLimitMax cfg) t rlBucket (getClientIP req)))) \<and>
         (toLowerCase (hostname u) = ''93.184.216.34'' \<longrightarrow>
          validTarget P req \<and>
          handler P cfg t rlBucket req =
            (case upstreamBody req of
               Inl e \<Rightarrow> \<lparr>out_res = reflectCors cfg req newResponse,
                          out_bucket = snd (rateLimitAllow (rateLimitMax cfg) t rlBucket (getClientIP req)),
                          out_fetches = [], out_thrown = Some e\<rparr>
             | Inr body \<Rightarrow> forwarded P cfg req body
                             (snd (rateLimitAllow (rateLimitMax cfg) t rlBucket (getClientIP req)))))"
proof (intro conjI impI)
  assume h: "toLowerCase (hostname u) \<in> {''localhost'', ''0.0.0.0'', ''127.0.0.1''} \<or>
           (\<exists>b c d. toLowerCase (hostname u) = dotted 10 b c d) \<or>
           (\<exists>c d. toLowerCase (hostname u) = dotted 192 168 c d) \<or>
           (\<exists>b c d. 16 \<le> b \<and> b \<le> 31 \<and> toLowerCase (hostname u) = dotted 172 b c d)"
  have "blockedHostname (toLowerCase (hostname u))"
    using h
  proof (elim disjE exE conjE)
    assume "toLowerCase (hostname u) \<in> {''localhost'', ''0.0.0.0'', ''127.0.0.1''}"
    then show ?thesis by (auto simp add: blockedHostname_def)
  next
    fix b c d assume "toLowerCase (hostname u) = dotted 10 b c d"
    then show ?thesis by (simp add: blocked_10)
  next
    fix c d assume "toLowerCase (hostname u) = dotted 192 168 c d"
    then show ?thesis by (simp add: blocked_192_168)
  next
    fix b c d :: nat assume "16 \<le> b" "b \<le> 31" "toLowerCase (hostname u) = dotted 172 b c d"
    then show ?thesis by (simp add: blocked_172)
  qed
  then have "isBlockedPrivateHost P (getTargetFromRequest P req)"
    by (simp add: isBlockedPrivateHost_parsed [OF u])
  moreover have "isHttpHttps P (getTargetFromRequest P req)"
    using pr by (simp add: isHttpHttps_parsed [OF u])
  ultimately show "handler P cfg t rlBucket req =
      rejected cfg req 403 ''Target host is blocked.''
        (snd (rateLimitAllow (rateLimitMax cfg) t rlBucket (getClientIP req)))"
    using handler_blocked [OF a tg] by simp
next
  assume h: "toLowerCase (hostname u) = ''93.184.216.34''"
  then have "\<not> isBlockedPrivateHost P (getTargetFromRequest P req)"
    by (simp add: isBlockedPrivateHost_parsed [OF u] blocked_examples)
  moreover have "isHttpHttps P (getTargetFromRequest P req)"
    using pr by (simp add: isHttpHttps_parsed [OF u])
  ultimately show v: "validTarget P req"
    using tg by (simp add: validTarget_def)
  show "handler P cfg t rlBucket req =
            (case upstreamBody req of
               Inl e \<Rightarrow> \<lparr>out_res = reflectCors cfg req newResponse,
                          out_bucket = snd (rateLimitAllow (rateLimitMax cfg) t rlBucket (getClientIP req)),
                          out_fetches = [], out_thrown = Some e\<rparr>
             | Inr body \<Rightarrow> forwarded P cfg req body
                             (snd (rateLimitAllow (rateLimitMax cfg) t rlBucket (getClientIP req))))"
    by (rule handler_forward [OF a v])
qed

text \<open>The loopback address is refused, the public address is fetched.\<close>

lemma private_ipv4_hosts_rejected_example:
  "admitted default_config 0 Map.empty (example_request ''GET'' ''http://127.0.0.1/'') \<and>
   getTargetFromRequest example_platform (example_request ''GET'' ''http://127.0.0.1/'') = ''http://127.0.0.1/'' \<and>
   statusCode (out_res (handler example_platform default_config 0 Map.empty
      (example_request ''GET'' ''http://127.0.0.1/''))) = 403 \<and>
   out_fetches (handler example_platform default_config 0 Map.empty
      (example_request ''GET'' ''http://127.0.0.1/'')) = [] \<and>
   admitted default_config 0 Map.empty (example_request ''GET'' ''http://93.184.216.34/'') \<and>
   statusCode (out_res (handler example_platform default_config 0 Map.empty
      (example_request ''GET'' ''http://93.184.216.34/''))) = 201 \<and>
   map f_target (out_fetches (handler example_platform default_config 0 Map.empty
      (example_request ''GET'' ''http://93.184.216.34/''))) = [''http://93.184.216.34/'']"
proof -
  let ?r1 = "example_request ''GET'' ''http://127.0.0.1/''"
  let ?r2 = "example_request ''GET'' ''http://93.184.216.34/''"
  let ?u1 = "\<lparr>protocol = ''http:'', hostname = ''127.0.0.1'', pathname = ''/'', searchParam_url = None\<rparr>"
  let ?u2 = "\<lparr>protocol = ''http:'', hostname = ''93.184.216.34'', pathname = ''/'', searchParam_url = None\<rparr>"
  have t1: "getTargetFromRequest example_platform ?r1 = ''http://127.0.0.1/''"
    and t2: "getTargetFromRequest example_platform ?r2 = ''http://93.184.216.34/''"
    by (rule example_target)+
  have n1: "getTargetFromRequest example_platform ?r1 \<noteq> []"
    and n2: "getTargetFromRequest example_platform ?r2 \<noteq> []"
    by (simp_all add: t1 t2)
  have u1: "newURL example_platform (getTargetFromRequest example_platform ?r1) None = Some ?u1"
    and u2: "newURL example_platform (getTargetFromRequest example_platform ?r2) None = Some ?u2"
    by (simp_all only: t1 t2 example_parse)
  have p1: "protocol ?u1 = ''http:'' \<or> protocol ?u1 = ''https:''"
    and p2: "protocol ?u2 = ''http:'' \<or> protocol ?u2 = ''https:''"
    by simp_all
  note c1 = private_ipv4_hosts_rejected [OF example_GET_admitted n1 u1 p1, of 0 Map.empty, THEN conjunct1]
  note c2 = private_ipv4_hosts_rejected [OF example_GET_admitted n2 u2 p2, of 0 Map.empty, THEN conjunct2]
  have h1: "handler example_platform default_config 0 Map.empty ?r1 =
      rejected default_config ?r1 403 ''Target host is blocked.''
        (snd (rateLimitAllow (rateLimitMax default_config) 0 Map.empty (getClientIP ?r1)))"
    using c1 by (simp add: lc_hosts)
  have h2: "handler example_platform default_config 0 Map.empty ?r2 =
      forwarded example_platform default_config ?r2 None
        (snd (rateLimitAllow (rateLimitMax default_config) 0 Map.empty (getClientIP ?r2)))"
    using c2 by (simp add: lc_hosts example_GET_body)
  have s2: "statusCode (out_res (handler example_platform default_config 0 Map.empty ?r2)) = 201"
    by (simp add: h2 forwarded_res [OF example_fetch] relay_status [OF example_upstream_sel(2)]
        example_upstream_sel(1))
  have f2: "map f_target (out_fetches (handler example_platform default_config 0 Map.empty ?r2)) =
      [''http://93.184.216.34/'']"
    by (simp add: h2 upstreamInit_def t2)
  show ?thesis
    by (intro conjI) (simp_all add: example_GET_admitted t1 h1 s2 f2)
qed

lemma matches_172_first: "matches_172 s \<Longrightarrow> hd s = CHR ''1''"
  by (cases s rule: matches_172.cases) simp_all

lemma bracketed_not_blocked:
  assumes "startsWith lower ''[''"
  shows "\<not> blockedHostname lower"
proof -
  from assms obtain rest where l: "lower = CHR ''['' # rest"
    by (cases lower) (simp_all add: startsWith_def)
  have "\<not> matches_172 lower"
    using matches_172_first [of lower] by (auto simp add: l)
  then show ?thesis
    by (simp add: blockedHostname_def startsWith_def) (simp add: l)
qed

text \<open>
  Claim C1 says that the Target Validator rejects the loopback address \<open>::1\<close> and the
  unique-local address \<open>fd00::1\<close> with 403, as it rejects \<open>localhost\<close> and the private IPv4
  ranges. The code does otherwise. \<open>new URL\<close> reports the host name of an IPv6 literal in its
  square brackets, \<open>[::1]\<close> and \<open>[fd00::1]\<close>, while the guard compares the host name with
  \<open>::1\<close> and tests whether it starts with \<open>fc\<close> or \<open>fd\<close>: no test of the guard holds of a
  name that starts with a bracket. So for every request that has passed the Policy Gate and
  whose target parses as an http(s) URL with a host name in square brackets, the guard
  returns false, the target is accepted, and the request goes on to the outbound call.
\<close>

theorem C1_bracketed_ipv6_host_forwarded:
  assumes a: "admitted cfg t rlBucket req"
    and tg: "getTargetFromRequest P req \<noteq> []"
    and u: "newURL P (getTargetFromRequest P req) None = Some u"
    and pr: "protocol u = ''http:'' \<or> protocol u = ''https:''"
    and h: "startsWith (toLowerCase (hostname u)) ''[''"
  shows "\<not> isBlockedPrivateHost P (getTargetFromRequest P req) \<and>
         validTarget P req \<and>
         handler P cfg t rlBucket req =
           (case upstreamBody req of
              Inl e \<Rightarrow> \<lparr>out_res = reflectCors cfg req newResponse,
                         out_bucket = snd (rateLimitAllow (rateLimitMax cfg) t rlBucket (getClientIP req)),
                         out_fetches = [], out_thrown = Some e\<rparr>
            | Inr body \<Rightarrow> forwarded P cfg req body
                            (snd (rateLimitAllow (rateLimitMax cfg) t rlBucket (getClientIP req))))"
proof -
  have b: "\<not> isBlockedPrivateHost P (getTargetFromRequest P req)"
    using bracketed_not_blocked [OF h] by (simp add: isBlockedPrivateHost_parsed [OF u])
  have "isHttpHttps P (getTargetFromRequest P req)"
    using pr by (simp add: isHttpHttps_parsed [OF u])
  with b tg have v: "validTarget P req"
    by (simp add: validTarget_def)
  from b v handler_forward [OF a v] show ?thesis
    by simp
qed

lemma example_parse_ipv6:
  "newURL example_platform ''http://[::1]/'' None =
     Some \<lparr>protocol = ''http:'', hostname = ''[::1]'', pathname = ''/'', searchParam_url = None\<rparr>"
  "newURL example_platform ''http://[fd00::1]/'' None =
     Some \<lparr>protocol = ''http:'', hostname = ''[fd00::1]'', pathname = ''/'', searchParam_url = None\<rparr>"
  by (simp_all add: example_platform_def example_newURL_def startsWith_def)

lemma lc_ipv6:
  "toLowerCase ''[::1]'' = ''[::1]''"
  "toLowerCase ''[fd00::1]'' = ''[fd00::1]''"
  by code_simp+

text \<open>
  The two IPv6 examples of the claim: GET requests for \<open>http://[::1]/\<close> and for
  \<open>http://[fd00::1]/\<close> under the default configuration are answered with the upstream's
  status 201, after an outbound call to the loopback and to the unique-local address.
\<close>

theorem C1_bracketed_ipv6_host_forwarded_witness:
  "admitted default_config 0 Map.empty (example_request ''GET'' ''http://[::1]/'') \<and>
   getTargetFromRequest example_platform (example_request ''GET'' ''http://[::1]/'') = ''http://[::1]/'' \<and>
   map_option hostname (newURL example_platform ''http://[::1]/'' None) = Some ''[::1]'' \<and>
   \<not> isBlockedPrivateHost example_platform ''http://[::1]/'' \<and>
   statusCode (out_res (handler example_platform default_config 0 Map.empty
      (example_request ''GET'' ''http://[::1]/''))) = 201 \<and>
   map f_target (out_fetches (handler example_platform default_config 0 Map.empty
      (example_request ''GET'' ''http://[::1]/''))) = [''http://[::1]/''] \<and>
   admitted default_config 0 Map.empty (example_request ''GET'' ''http://[fd00::1]/'') \<and>
   map_option hostname (newURL example_platform ''http://[fd00::1]/'' None) = Some ''[fd00::1]'' \<and>
   \<not> isBlockedPrivateHost example_platform ''http://[fd00::1]/'' \<and>
   statusCode (out_res (handler example_platform default_config 0 Map.empty
      (example_request ''GET'' ''http://[fd00::1]/''))) = 201 \<and>
   map f_target (out_fetches (handler example_platform default_config 0 Map.empty
      (example_request ''GET'' ''http://[fd00::1]/''))) = [''http://[fd00::1]/'']"
proof -
  let ?r1 = "example_request ''GET'' ''http://[::1]/''"
  let ?r2 = "example_request ''GET'' ''http://[fd00::1]/''"
  let ?u1 = "\<lparr>protocol = ''http:'', hostname = ''[::1]'', pathname = ''/'', searchParam_url = None\<rparr>"
  let ?u2 = "\<lparr>protocol = ''http:'', hostname = ''[fd00::1]'', pathname = ''/'', searchParam_url = None\<rparr>"
  have t1: "getTargetFromRequest example_platform ?r1 = ''http://[::1]/''"
    and t2: "getTargetFromRequest example_platform ?r2 = ''http://[fd00::1]/''"
    by (rule example_target)+
  have n1: "getTargetFromRequest example_platform ?r1 \<noteq> []"
    and n2: "getTargetFromRequest example_platform ?r2 \<noteq> []"
    by (simp_all add: t1 t2)
  have u1: "newURL example_platform (getTargetFromRequest example_platform ?r1) None = Some ?u1"
    and u2: "newURL example_platform (getTargetFromRequest example_platform ?r2) None = Some ?u2"
    by (simp_all only: t1 t2 example_parse_ipv6)
  have p1: "protocol ?u1 = ''http:'' \<or> protocol ?u1 = ''https:''"
    and p2: "protocol ?u2 = ''http:'' \<or> protocol ?u2 = ''https:''"
    by simp_all
  have b1: "startsWith (toLowerCase (hostname ?u1)) ''[''"
    and b2: "startsWith (toLowerCase (hostname ?u2)) ''[''"
    by (simp_all add: lc_ipv6 startsWith_def)
  note c1 = C1_bracketed_ipv6_host_forwarded [OF example_GET_admitted n1 u1 p1 b1, of 0 Map.empty]
  note c2 = C1_bracketed_ipv6_host_forwarded [OF example_GET_admitted n2 u2 p2 b2, of 0 Map.empty]
  have g1: "\<not> isBlockedPrivateHost example_platform ''http://[::1]/''"
    using c1 [THEN conjunct1] unfolding t1 .
  have g2: "\<not> isBlockedPrivateHost example_platform ''http://[fd00::1]/''"
    using c2 [THEN conjunct1] unfolding t2 .
  have h1: "handler example_platform default_config 0 Map.empty ?r1 =
      forwarded example_platform default_config ?r1 None
        (snd (rateLimitAllow (rateLimitMax default_config) 0 Map.empty (getClientIP ?r1)))"
    using c1 [THEN conjunct2, THEN conjunct2] by (simp add: example_GET_body)
  have h2: "handler example_platform default_config 0 Map.empty ?r2 =
      forwarded example_platform default_config ?r2 None
        (snd (rateLimitAllow (rateLimitMax default_config) 0 Map.empty (getClientIP ?r2)))"
    using c2 [THEN conjunct2, THEN conjunct2] by (simp add: example_GET_body)
  have s1: "statusCode (out_res (handler example_platform default_config 0 Map.empty ?r1)) = 201"
    by (simp add: h1 forwarded_res [OF example_fetch] relay_status [OF example_upstream_sel(2)]
        example_upstream_sel(1))
  have s2: "statusCode (out_res (handler example_platform default_config 0 Map.empty ?r2)) = 201"
    by (simp add: h2 forwarded_res [OF example_fetch] relay_status [OF example_upstream_sel(2)]
        example_upstream_sel(1))
  have f1: "map f_target (out_fetches (handler example_platform default_config 0 Map.empty ?r1)) =
      [''http://[::1]/'']"
    by (simp add: h1 upstreamInit_def t1)
  have f2: "map f_target (out_fetches (handler example_platform default_config 0 Map.empty ?r2)) =
      [''http://[fd00::1]/'']"
    by (simp add: h2 upstreamInit_def t2)
  show ?thesis
    by (intro conjI) (simp_all add: example_GET_admitted t1 g1 g2 s1 s2 f1 f2 example_parse_ipv6)
qed

text \<open>
  Claim C9 says that the unique-local-address rule rejects IPv6 literals only and leaves
  domain names alone. The code does otherwise: the test is \<open>startsWith("fc")\<close> or
  \<open>startsWith("fd")\<close> on whatever the host name is, so every http(s) target whose host name,
  lower-cased, begins with \<open>fc\<close> or \<open>fd\<close> is answered with 403 "Target host is blocked.".
\<close>

theorem C9_fc_fd_prefix_blocks_domain_names:
  assumes a: "admitted cfg t rlBucket req"
    and tg: "getTargetFromRequest P req \<noteq> []"
    and u: "newURL P (getTargetFromRequest P req) None = Some u"
    and pr: "protocol u = ''http:'' \<or> protocol u = ''https:''"
    and h: "startsWith (toLowerCase (hostname u)) ''fc'' \<or> startsWith (toLowerCase (hostname u)) ''fd''"
  shows "handler P cfg t rlBucket req =
           rejected cfg req 403 ''Target host is blocked.''
             (snd (rateLimitAllow (rateLimitMax cfg) t rlBucket (getClientIP req)))"
proof -
  have "blockedHostname (toLowerCase (hostname u))"
    using h by (auto simp add: blockedHostname_def)
  then have "isBlockedPrivateHost P (getTargetFromRequest P req)"
    by (simp add: isBlockedPrivateHost_parsed [OF u])
  moreover have "isHttpHttps P (getTargetFromRequest P req)"
    using pr by (simp add: isHttpHttps_parsed [OF u])
  ultimately show ?thesis
    using handler_blocked [OF a tg] by simp
qed

text \<open>The domain name of the claim, \<open>fcdn.example.com\<close>, is refused.\<close>

theorem C9_fc_fd_prefix_blocks_domain_names_witness:
  "admitted default_config 0 Map.empty (example_request ''GET'' ''http://fcdn.example.com/'') \<and>
   newURL example_platform
     (getTargetFromRequest example_platform (example_request ''GET'' ''http://fcdn.example.com/'')) None =
     Some \<lparr>protocol = ''http:'', hostname = ''fcdn.example.com'', pathname = ''/'',
           searchParam_url = None\<rparr> \<and>
   statusCode (out_res (handler example_platform default_config 0 Map.empty
      (example_request ''GET'' ''http://fcdn.example.com/''))) = 403 \<and>
   out_fetches (handler example_platform default_config 0 Map.empty
      (example_request ''GET'' ''http://fcdn.example.com/'')) = []"
proof -
  let ?r = "example_request ''GET'' ''http://fcdn.example.com/''"
  let ?u = "\<lparr>protocol = ''http:'', hostname = ''fcdn.example.com'', pathname = ''/'', searchParam_url = None\<rparr>"
  have t: "getTargetFromRequest example_platform ?r = ''http://fcdn.example.com/''"
    by (rule example_target)
  have n: "getTargetFromRequest example_platform ?r \<noteq> []"
    by (simp add: t)
  have u: "newURL example_platform (getTargetFromRequest example_platform ?r) None = Some ?u"
    by (simp only: t example_parse)
  have p: "protocol ?u = ''http:'' \<or> protocol ?u = ''https:''"
    by simp
  have h: "startsWith (toLowerCase (hostname ?u)) ''fc'' \<or> startsWith (toLowerCase (hostname ?u)) ''fd''"
    by (simp add: lc_hosts startsWith_def)
  note c = C9_fc_fd_prefix_blocks_domain_names [OF example_GET_admitted n u p h, of 0 Map.empty]
  show ?thesis
    by (intro conjI) (simp_all add: example_GET_admitted u c)
qed

text \<open>
  Claim C6, as the code has it. A request that has passed the Policy Gate with a non-empty
  target that does not parse as an absolute URL is answered with 400 "Only http(s) URLs are
  allowed.": the scheme check runs first and counts a parse failure as not http(s). The
  private-host guard would also refuse the target (it fails closed), but the handler does
  not get that far, so a parse failure is never answered with 403.
\<close>

theorem C6_unparseable_target_gets_400:
  assumes a: "admitted cfg t rlBucket req"
    and tg: "getTargetFromRequest P req \<noteq> []"
    and u: "newURL P (getTargetFromRequest P req) None = None"
  shows "handler P cfg t rlBucket req =
           rejected cfg req 400 ''Only http(s) URLs are allowed.''
             (snd (rateLimitAllow (rateLimitMax cfg) t rlBucket (getClientIP req))) \<and>
         statusCode (out_res (handler P cfg t rlBucket req)) = 400 \<and>
         \<not> isHttpHttps P (getTargetFromRequest P req) \<and>
         isBlockedPrivateHost P (getTargetFromRequest P req)"
proof -
  have s: "\<not> isHttpHttps P (getTargetFromRequest P req)"
    by (simp add: isHttpHttps_def u)
  have b: "isBlockedPrivateHost P (getTargetFromRequest P req)"
    by (simp add: isBlockedPrivateHost_def u)
  note h = handler_invalid_scheme [OF a tg s]
  show ?thesis
    by (simp add: h s b)
qed

lemma not_a_url_target:
  "getTargetFromRequest example_platform (example_request ''GET'' ''not-a-url'') = ''not-a-url''"
  by (rule example_target)

text \<open>The target \<open>not-a-url\<close> under the default configuration.\<close>

theorem C6_unparseable_target_gets_400_witness:
  "admitted default_config 0 Map.empty (example_request ''GET'' ''not-a-url'') \<and>
   getTargetFromRequest example_platform (example_request ''GET'' ''not-a-url'') \<noteq> [] \<and>
   newURL example_platform
     (getTargetFromRequest example_platform (example_request ''GET'' ''not-a-url'')) None = None \<and>
   handler example_platform default_config 0 Map.empty (example_request ''GET'' ''not-a-url'') =
     rejected default_config (example_request ''GET'' ''not-a-url'') 400
       ''Only http(s) URLs are allowed.'' Map.empty"
proof -
  let ?r = "example_request ''GET'' ''not-a-url''"
  have n: "getTargetFromRequest example_platform ?r \<noteq> []"
    by (simp add: not_a_url_target)
  have u: "newURL example_platform (getTargetFromRequest example_platform ?r) None = None"
    by (simp only: not_a_url_target example_parse)
  have b: "snd (rateLimitAllow (rateLimitMax default_config) 0 Map.empty (getClientIP ?r)) = Map.empty"
    by (simp add: rateLimitAllow_def default_config_def)
  note c = C6_unparseable_target_gets_400 [OF example_GET_admitted n u, of 0 Map.empty, THEN conjunct1]
  show ?thesis
    using c by (simp only: b example_GET_admitted n u simp_thms)
qed

text \<open>Where the claim as written fails: the status for that target is 400, not 403.\<close>

theorem C6_unparseable_target_counterexample:
  "newURL example_platform ''not-a-url'' None = None \<and>
   getTargetFromRequest example_platform (example_request ''GET'' ''not-a-url'') = ''not-a-url'' \<and>
   statusCode (out_res (handler example_platform default_config 0 Map.empty
      (example_request ''GET'' ''not-a-url''))) = 400 \<and>
   res_body (out_res (handler example_platform default_config 0 Map.empty
      (example_request ''GET'' ''not-a-url''))) =
     Some (Text (JSON_stringify (JObject [(''error'', JString ''Only http(s) URLs are allowed.'')])))"
proof -
  let ?r = "example_request ''GET'' ''not-a-url''"
  have n: "getTargetFromRequest example_platform ?r \<noteq> []"
    by (simp add: not_a_url_target)
  have s: "\<not> isHttpHttps example_platform (getTargetFromRequest example_platform ?r)"
    by (simp add: isHttpHttps_def not_a_url_target example_parse)
  note h = handler_invalid_scheme [OF example_GET_admitted n s, of 0 Map.empty]
  show ?thesis
    by (simp add: h example_parse not_a_url_target)
qed

section \<open>The Policy Gate\<close>

text \<open>
  Claim C3. For a request that is not a preflight the checks run in the order denylist,
  allowlist, required headers, API key, rate limit, and the first one that fails decides the
  response: 403 "Origin denied.", 403 "Origin not allowed." (never with an empty allowlist),
  400 naming the first missing header, 401, 429. No later check has a say in it: each line
  holds whatever the later checks would find. The four stateless rejections leave the
  rate-limit table as it was, so the counter is incremented only once they have passed, and
  no rejection makes an outbound call.
\<close>

theorem C3_policy_gate_order:
  assumes m: "req_method req \<noteq> ''OPTIONS''"
  shows "(originDenied cfg req \<longrightarrow>
            handler P cfg t rlBucket req = rejected cfg req 403 ''Origin denied.'' rlBucket) \<and>
         (\<not> originDenied cfg req \<and> originNotAllowed cfg req \<longrightarrow>
            handler P cfg t rlBucket req = rejected cfg req 403 ''Origin not allowed.'' rlBucket) \<and>
         (allowlist cfg = [] \<longrightarrow> \<not> originNotAllowed cfg req) \<and>
         (\<forall>rh. \<not> originDenied cfg req \<and> \<not> originNotAllowed cfg req \<and>
               missingRequiredHeader cfg req = Some rh \<longrightarrow>
            handler P cfg t rlBucket req =
              rejected cfg req 400 (''Missing required header: '' @ rh) rlBucket) \<and>
         (\<not> originDenied cfg req \<and> \<not> originNotAllowed cfg req \<and>
            missingRequiredHeader cfg req = None \<and> unauthorized cfg req \<longrightarrow>
            handler P cfg t rlBucket req =
              rejected cfg req 401 ''Invalid or missing API key.'' rlBucket) \<and>
         (passesPolicy cfg req \<and>
            \<not> fst (rateLimitAllow (rateLimitMax cfg) t rlBucket (getClientIP req)) \<longrightarrow>
            handler P cfg t rlBucket req =
              rejected cfg req 429 ''Rate limit exceeded. Try later.''
                (snd (rateLimitAllow (rateLimitMax cfg) t rlBucket (getClientIP req))))"
  using handler_denied [OF m] handler_not_allowed [OF m] handler_missing_header [OF m]
    handler_unauthorized [OF m] handler_rate_limited [OF m]
  by (simp add: originNotAllowed_def)

lemma policy_request_method [simp]: "req_method (policy_request hs) \<noteq> ''OPTIONS''"
  by (simp add: policy_request_def)

lemma gate_examples:
  "originDenied strict_config req_denied"
  "originNotAllowed strict_config req_denied"
  "\<not> originDenied strict_config req_not_allowed"
  "originNotAllowed strict_config req_not_allowed"
  "\<not> originDenied strict_config req_no_header"
  "\<not> originNotAllowed strict_config req_no_header"
  "missingRequiredHeader strict_config req_no_header = Some ''x-requested-with''"
  "unauthorized strict_config req_no_header"
  "\<not> originDenied strict_config req_no_key"
  "\<not> originNotAllowed strict_config req_no_key"
  "missingRequiredHeader strict_config req_no_key = None"
  "unauthorized strict_config req_no_key"
  "passesPolicy strict_config req_keyed"
  "getClientIP req_keyed = ''203.0.113.7''"
  by code_simp+

lemma gate_example_limited:
  "\<not> fst (rateLimitAllow (rateLimitMax strict_config) 1000 full_bucket (getClientIP req_keyed))"
  unfolding gate_examples by (rule full_bucket_limits)

text \<open>
  Five requests under a configuration with every policy switched on; the first would fail
  every check and is answered by the denylist.
\<close>

theorem C3_policy_gate_order_witness:
  "handler example_platform strict_config 1000 full_bucket req_denied =
     rejected strict_config req_denied 403 ''Origin denied.'' full_bucket \<and>
   handler example_platform strict_config 1000 full_bucket req_not_allowed =
     rejected strict_config req_not_allowed 403 ''Origin not allowed.'' full_bucket \<and>
   handler example_platform strict_config 1000 full_bucket req_no_header =
     rejected strict_config req_no_header 400 ''Missing required header: x-requested-with'' full_bucket \<and>
   handler example_platform strict_config 1000 full_bucket req_no_key =
     rejected strict_config req_no_key 401 ''Invalid or missing API key.'' full_bucket \<and>
   statusCode (out_res (handler example_platform strict_config 1000 full_bucket req_keyed)) = 429"
proof -
  have m: "req_method req_denied \<noteq> ''OPTIONS''" "req_method req_not_allowed \<noteq> ''OPTIONS''"
    "req_method req_no_header \<noteq> ''OPTIONS''" "req_method req_no_key \<noteq> ''OPTIONS''"
    "req_method req_keyed \<noteq> ''OPTIONS''"
    by (simp_all add: req_denied_def req_not_allowed_def req_no_header_def req_no_key_def
        req_keyed_def)
  note g = gate_examples
  have 1: "handler example_platform strict_config 1000 full_bucket req_denied =
     rejected strict_config req_denied 403 ''Origin denied.'' full_bucket"
    using C3_policy_gate_order [OF m(1), of strict_config example_platform 1000 full_bucket] g(1)
    by blast
  have 2: "handler example_platform strict_config 1000 full_bucket req_not_allowed =
     rejected strict_config req_not_allowed 403 ''Origin not allowed.'' full_bucket"
    using C3_policy_gate_order [OF m(2), of strict_config example_platform 1000 full_bucket] g(3,4)
    by blast
  have 3: "handler example_platform strict_config 1000 full_bucket req_no_header =
     rejected strict_config req_no_header 400 (''Missing required header: '' @ ''x-requested-with'') full_bucket"
    using C3_policy_gate_order [OF m(3), of strict_config example_platform 1000 full_bucket] g(5,6,7)
    by blast
  have 4: "handler example_platform strict_config 1000 full_bucket req_no_key =
     rejected strict_config req_no_key 401 ''Invalid or missing API key.'' full_bucket"
    using C3_policy_gate_order [OF m(4), of strict_config example_platform 1000 full_bucket] g(9,10,11,12)
    by blast
  have 5: "handler example_platform strict_config 1000 full_bucket req_keyed =
     rejected strict_config req_keyed 429 ''Rate limit exceeded. Try later.''
       (snd (rateLimitAllow (rateLimitMax strict_config) 1000 full_bucket (getClientIP req_keyed)))"
    using C3_policy_gate_order [OF m(5), of strict_config example_platform 1000 full_bucket] g(13)
      gate_example_limited
    by blast
  show ?thesis
    using 1 2 3 4 by (simp add: 5)
qed

section \<open>Rate limiting\<close>

lemma rateLimitAllow_fresh:
  "rlMax \<noteq> 0 \<Longrightarrow> rlBucket ip = None \<Longrightarrow>
   rateLimitAllow rlMax t rlBucket ip =
     (1 \<le> rlMax, rlBucket(ip \<mapsto> \<lparr>count = 1, reset = t + WINDOW_MS\<rparr>))"
  by (simp add: rateLimitAllow_def Let_def)

lemma rateLimitAllow_in_window:
  "rlMax \<noteq> 0 \<Longrightarrow> rlBucket ip = Some r \<Longrightarrow> t \<le> reset r \<Longrightarrow>
   rateLimitAllow rlMax t rlBucket ip =
     (count r + 1 \<le> rlMax, rlBucket(ip \<mapsto> r\<lparr>count := count r + 1\<rparr>))"
  by (simp add: rateLimitAllow_def Let_def)

lemma rateLimitAllow_elapsed:
  "rlMax \<noteq> 0 \<Longrightarrow> rlBucket ip = Some r \<Longrightarrow> reset r < t \<Longrightarrow>
   rateLimitAllow rlMax t rlBucket ip =
     (1 \<le> rlMax, rlBucket(ip \<mapsto> \<lparr>count = 1, reset = t + WINDOW_MS\<rparr>))"
  by (simp add: rateLimitAllow_def Let_def)

lemma rateLimitAllow_other:
  "ip' \<noteq> ip \<Longrightarrow> snd (rateLimitAllow rlMax t rlBucket ip) ip' = rlBucket ip'"
  by (simp add: rateLimitAllow_def Let_def)

lemma rateLimitAllow_local:
  "rlBucket ip = rlBucket' ip \<Longrightarrow>
   fst (rateLimitAllow rlMax t rlBucket ip) = fst (rateLimitAllow rlMax t rlBucket' ip)"
  by (simp add: rateLimitAllow_def Let_def)

lemma handler_res_local:
  assumes "rlBucket (getClientIP req) = rlBucket' (getClientIP req)"
  shows "out_res (handler P cfg t rlBucket req) = out_res (handler P cfg t rlBucket' req)"
proof -
  have e: "fst (rateLimitAllow (rateLimitMax cfg) t rlBucket (getClientIP req)) =
      fst (rateLimitAllow (rateLimitMax cfg) t rlBucket' (getClientIP req))"
    using assms by (rule rateLimitAllow_local)
  show ?thesis
    unfolding handler_unfold Let_def e
    by (simp only: if_distrib [of out_res] option.case_distrib [of out_res]
        sum.case_distrib [of out_res] rejected_sel finish_sel outcome.select_convs)
qed

lemma handler_succeeds:
  assumes s: "succeeds P cfg req up"
    and r: "fst (rateLimitAllow (rateLimitMax cfg) t rlBucket (getClientIP req))"
  shows "out_res (handler P cfg t rlBucket req) = relay cfg req (reflectCors cfg req newResponse) up"
    and "out_bucket (handler P cfg t rlBucket req) =
           snd (rateLimitAllow (rateLimitMax cfg) t rlBucket (getClientIP req))"
    and "statusCode (out_res (handler P cfg t rlBucket req)) = up_status up"
proof -
  from s r have a: "admitted cfg t rlBucket req" and v: "validTarget P req"
    by (simp_all add: succeeds_def admitted_def)
  from s obtain body where b: "upstreamBody req = Inr body"
    and f: "fetch P (upstreamInit P req body) = Inr up"
    by (auto simp add: succeeds_def split: sum.splits)
  from s obtain buf where u: "up_body up = Inr buf"
    by (auto simp add: succeeds_def split: sum.splits)
  have h: "handler P cfg t rlBucket req =
      forwarded P cfg req body (snd (rateLimitAllow (rateLimitMax cfg) t rlBucket (getClientIP req)))"
    using handler_forward [OF a v] by (simp add: b)
  show "out_res (handler P cfg t rlBucket req) = relay cfg req (reflectCors cfg req newResponse) up"
    by (simp add: h forwarded_res [OF f])
  then show "statusCode (out_res (handler P cfg t rlBucket req)) = up_status up"
    by (simp add: relay_status [OF u])
  show "out_bucket (handler P cfg t rlBucket req) =
           snd (rateLimitAllow (rateLimitMax cfg) t rlBucket (getClientIP req))"
    by (simp add: h)
qed

text \<open>
  Claim C4. With threshold 2 and no counter yet for the client's address, three requests
  from that address, the second and third no later than the first one's time plus the
  window, are answered with the upstream's status, the upstream's status and 429 (the first
  two pass the stateless checks and their target calls succeed). The table then differs from
  the initial one at that address only, and a request from any other address is answered
  as it would have been with the initial table. Whenever the clock has passed a counter's
  reset time, the next request from that address is admitted and leaves the counter at 1
  with the reset time one window ahead.
\<close>

theorem C4_rate_limit_two_per_window:
  assumes m: "rateLimitMax cfg = 2"
    and fresh: "rlBucket ip = None"
    and w: "t2 \<le> t1 + WINDOW_MS" "t3 \<le> t1 + WINDOW_MS"
    and ip: "getClientIP r1 = ip" "getClientIP r2 = ip" "getClientIP r3 = ip"
    and s1: "succeeds P cfg r1 up1" and s2: "succeeds P cfg r2 up2"
    and p3: "req_method r3 \<noteq> ''OPTIONS''" "passesPolicy cfg r3"
  shows "statusCode (out_res (handler P cfg t1 rlBucket r1)) = up_status up1 \<and>
         statusCode (out_res
           (handler P cfg t2 (out_bucket (handler P cfg t1 rlBucket r1)) r2)) = up_status up2 \<and>
         handler P cfg t3
           (out_bucket (handler P cfg t2 (out_bucket (handler P cfg t1 rlBucket r1)) r2)) r3 =
           rejected cfg r3 429 ''Rate limit exceeded. Try later.''
             ((rlBucket(ip \<mapsto> \<lparr>count = 3, reset = t1 + WINDOW_MS\<rparr>))) \<and>
         (\<forall>r t. getClientIP r \<noteq> ip \<longrightarrow>
            out_res (handler P cfg t ((rlBucket(ip \<mapsto> \<lparr>count = 3, reset = t1 + WINDOW_MS\<rparr>))) r) =
            out_res (handler P cfg t rlBucket r)) \<and>
         (\<forall>b r t. b ip = Some r \<and> reset r < t \<longrightarrow>
            rateLimitAllow (rateLimitMax cfg) t b ip =
              (True, b(ip \<mapsto> \<lparr>count = 1, reset = t + WINDOW_MS\<rparr>)))"
proof -
  let ?W = "t1 + WINDOW_MS"
  let ?strict_config_denies = "rlBucket(ip \<mapsto> \<lparr>count = 1, reset = ?W\<rparr>)"
  let ?strict_config_not_allowed = "rlBucket(ip \<mapsto> \<lparr>count = 2, reset = ?W\<rparr>)"
  let ?strict_config_missing_header = "rlBucket(ip \<mapsto> \<lparr>count = 3, reset = ?W\<rparr>)"
  have a1: "rateLimitAllow (rateLimitMax cfg) t1 rlBucket (getClientIP r1) = (True, ?strict_config_denies)"
    using rateLimitAllow_fresh [of 2 rlBucket ip t1] fresh by (simp add: m ip)
  have a2: "rateLimitAllow (rateLimitMax cfg) t2 ?strict_config_denies (getClientIP r2) = (True, ?strict_config_not_allowed)"
    using rateLimitAllow_in_window [of 2 ?strict_config_denies ip "\<lparr>count = 1, reset = ?W\<rparr>" t2] w
    by (simp add: m ip numeral_2_eq_2)
  have a3: "rateLimitAllow (rateLimitMax cfg) t3 ?strict_config_not_allowed (getClientIP r3) = (False, ?strict_config_missing_header)"
    using rateLimitAllow_in_window [of 2 ?strict_config_not_allowed ip "\<lparr>count = 2, reset = ?W\<rparr>" t3] w
    by (simp add: m ip numeral_2_eq_2 numeral_3_eq_3)
  have f1: "fst (rateLimitAllow (rateLimitMax cfg) t1 rlBucket (getClientIP r1))"
    by (simp only: a1 fst_conv)
  have f2: "fst (rateLimitAllow (rateLimitMax cfg) t2 ?strict_config_denies (getClientIP r2))"
    by (simp only: a2 fst_conv)
  have f3: "\<not> fst (rateLimitAllow (rateLimitMax cfg) t3 ?strict_config_not_allowed (getClientIP r3))"
    by (simp only: a3 fst_conv not_False_eq_True)
  have o1: "out_bucket (handler P cfg t1 rlBucket r1) = ?strict_config_denies"
    using handler_succeeds(2) [OF s1 f1] by (simp only: a1 snd_conv)
  have c1: "statusCode (out_res (handler P cfg t1 rlBucket r1)) = up_status up1"
    by (rule handler_succeeds(3) [OF s1 f1])
  have o2: "out_bucket (handler P cfg t2 ?strict_config_denies r2) = ?strict_config_not_allowed"
    using handler_succeeds(2) [OF s2 f2] by (simp only: a2 snd_conv)
  have c2: "statusCode (out_res (handler P cfg t2 ?strict_config_denies r2)) = up_status up2"
    by (rule handler_succeeds(3) [OF s2 f2])
  have c3: "handler P cfg t3 ?strict_config_not_allowed r3 = rejected cfg r3 429 ''Rate limit exceeded. Try later.'' ?strict_config_missing_header"
    using handler_rate_limited [OF p3 f3, of P] by (simp only: a3 snd_conv)
  have other: "out_res (handler P cfg t ?strict_config_missing_header r) = out_res (handler P cfg t rlBucket r)"
    if "getClientIP r \<noteq> ip" for r t
    using that by (intro handler_res_local) simp
  have el: "rateLimitAllow (rateLimitMax cfg) t b ip =
      (True, b(ip \<mapsto> \<lparr>count = 1, reset = t + WINDOW_MS\<rparr>))"
    if "b ip = Some r" "reset r < t" for b r t
    using rateLimitAllow_elapsed [of 2 b ip r t] that by (simp add: m)
  show ?thesis
    unfolding o1 o2 using c1 c2 c3 other el by blast
qed

lemma limited_request_ip: "getClientIP limited_request = ''198.51.100.9''"
  by code_simp

lemma limited_request_target:
  "getTargetFromRequest ok_platform limited_request = ''http://93.184.216.34/''"
  by (simp add: getTargetFromRequest_def ok_platform_def example_platform_def example_newURL_def
      limited_request_def example_request_def startsWith_def Let_def)

lemma ok_platform_parse:
  "newURL ok_platform ''http://93.184.216.34/'' None =
     Some \<lparr>protocol = ''http:'', hostname = ''93.184.216.34'', pathname = ''/'', searchParam_url = None\<rparr>"
  using example_parse(2) by (simp add: ok_platform_def)

lemma limited_request_succeeds: "succeeds ok_platform limit2_config limited_request ok_upstream"
proof -
  have m: "req_method limited_request = ''GET''"
    by (simp add: limited_request_def)
  have p: "passesPolicy limit2_config limited_request"
    by (simp add: passesPolicy_def originDenied_def originNotAllowed_def missingRequiredHeader_def
        unauthorized_def limit2_config_def default_config_def)
  have v: "validTarget ok_platform limited_request"
    by (simp add: validTarget_def limited_request_target isHttpHttps_def isBlockedPrivateHost_def
        ok_platform_parse lc_hosts blocked_examples)
  have b: "upstreamBody limited_request = Inr None"
    by (simp add: upstreamBody_def upstreamMethod_def m)
  have f: "fetch ok_platform init = Inr ok_upstream" for init
    by (simp add: ok_platform_def)
  have u: "up_body ok_upstream = Inr ''abc''"
    by (simp add: ok_upstream_def example_upstream_def)
  show ?thesis
    by (simp add: succeeds_def m p v b f u)
qed

text \<open>
  Statuses 200, 200 and 429 for a client identified by the first entry of
  \<open>x-forwarded-for\<close>, at times 0, 1000 and 600000.
\<close>

theorem C4_rate_limit_two_per_window_witness:
  "rateLimitMax limit2_config = 2 \<and> getClientIP limited_request = ''198.51.100.9'' \<and>
   succeeds ok_platform limit2_config limited_request ok_upstream \<and>
   statusCode (out_res (handler ok_platform limit2_config 0 Map.empty limited_request)) = 200 \<and>
   statusCode (out_res (handler ok_platform limit2_config 1000
     (out_bucket (handler ok_platform limit2_config 0 Map.empty limited_request))
     limited_request)) = 200 \<and>
   statusCode (out_res (handler ok_platform limit2_config 600000
     (out_bucket (handler ok_platform limit2_config 1000
        (out_bucket (handler ok_platform limit2_config 0 Map.empty limited_request))
        limited_request))
     limited_request)) = 429"
proof -
  have m: "rateLimitMax limit2_config = 2"
    by (simp add: limit2_config_def)
  have w: "1000 \<le> 0 + WINDOW_MS" "600000 \<le> 0 + WINDOW_MS"
    by (simp_all add: WINDOW_MS_def)
  have fresh: "Map.empty ''198.51.100.9'' = (None :: rl_rec option)"
    by simp
  have p: "req_method limited_request \<noteq> ''OPTIONS''" "passesPolicy limit2_config limited_request"
    using limited_request_succeeds by (simp_all add: succeeds_def)
  have st: "up_status ok_upstream = 200"
    by (simp add: ok_upstream_def)
  note c = C4_rate_limit_two_per_window [OF m fresh w limited_request_ip limited_request_ip
      limited_request_ip limited_request_succeeds limited_request_succeeds p]
  show ?thesis
    using c by (simp add: m limited_request_ip limited_request_succeeds st)
qed

section \<open>Error responses\<close>

lemma proxy_wrapper_responded:
  "proxy_wrapper P req = Responded res \<Longrightarrow> res = wrapper_error"
  by (auto simp add: proxy_wrapper_def wrapper_error_def split: option.splits if_splits)

lemma wrapper_error_is_error:
  "isErrorResponse wrapper_error 400
     ''Provide target via ?url= or /api/proxy/<url>, only http(s) allowed.''"
  by (simp add: isErrorResponse_def wrapper_error_def)

lemma wrapper_error_headers:
  "toLowerCase n \<noteq> ''content-type'' \<Longrightarrow> getHeader wrapper_error n = None"
  by (simp add: wrapper_error_def)

lemma proxy_wrapper_health_responded:
  "proxy_wrapper_health P req = Responded res \<Longrightarrow>
   res = sendHealthJSON \<or> res = sendHealthText \<or> res = wrapper_health_error"
  by (auto simp add: proxy_wrapper_health_def wrapper_health_error_def
      split: option.splits if_splits)

lemma wrapper_health_headers:
  "toLowerCase n \<noteq> ''content-type'' \<Longrightarrow> getHeader sendHealthJSON n = None"
  "toLowerCase n \<noteq> ''content-type'' \<Longrightarrow> getHeader sendHealthText n = None"
  "toLowerCase n \<noteq> ''content-type'' \<Longrightarrow> getHeader wrapper_health_error n = None"
  by (simp_all add: sendHealthJSON_def sendHealthText_def wrapper_health_error_def)

lemma wrapper_health_status:
  "statusCode sendHealthJSON = 200" "statusCode sendHealthText = 200"
  "statusCode wrapper_health_error = 400"
  by (simp_all add: sendHealthJSON_def sendHealthText_def wrapper_health_error_def)

lemma rejected_is_error:
  "isErrorResponse (out_res (rejected cfg req code msg b)) code msg"
  "carriesCors cfg req (out_res (rejected cfg req code msg b))"
  by (simp_all add: fail_carries reflectCors_carries)

text \<open>
  Claim C8, as the code has it. The handler writes a text body in \<open>fail\<close> only (a relayed
  body is a buffer, the body of a preflight is empty). Every response of the handler with a
  text body has one of the statuses 400, 401, 403, 429, 502, a body that is a JSON object
  with the single string field \<open>error\<close>, the JSON content type, and the CORS headers; so
  has every rejection. The 400 response that the cors-anywhere wrapper sends by itself is
  such a JSON object too, but \<open>Content-Type\<close> is the only header it carries; in the variant
  with health endpoints the object has a second field, \<open>example\<close>, and again no header but
  \<open>Content-Type\<close>.
\<close>

theorem C8_error_responses:
  "(\<forall>str. res_body (out_res (handler P cfg t rlBucket req)) = Some (Text str) \<longrightarrow>
      (\<exists>code msg. code \<in> {400, 401, 403, 429, 502} \<and>
         isErrorResponse (out_res (handler P cfg t rlBucket req)) code msg) \<and>
      carriesCors cfg req (out_res (handler P cfg t rlBucket req))) \<and>
   (\<forall>code msg b. handler P cfg t rlBucket req = rejected cfg req code msg b \<longrightarrow>
      isErrorResponse (out_res (handler P cfg t rlBucket req)) code msg \<and>
      carriesCors cfg req (out_res (handler P cfg t rlBucket req))) \<and>
   (\<forall>res. proxy_wrapper P req = Responded res \<longrightarrow>
      isErrorResponse res 400
        ''Provide target via ?url= or /api/proxy/<url>, only http(s) allowed.'' \<and>
      (\<forall>n. toLowerCase n \<noteq> ''content-type'' \<longrightarrow> getHeader res n = None)) \<and>
   (\<forall>res. proxy_wrapper_health P req = Responded res \<and> statusCode res \<noteq> 200 \<longrightarrow>
      res = wrapper_health_error \<and> statusCode res = 400 \<and>
      (\<forall>n. toLowerCase n \<noteq> ''content-type'' \<longrightarrow> getHeader res n = None))"
proof (intro conjI allI impI)
  fix str
  assume "res_body (out_res (handler P cfg t rlBucket req)) = Some (Text str)"
  then show "\<exists>code msg. code \<in> {400, 401, 403, 429, 502} \<and>
         isErrorResponse (out_res (handler P cfg t rlBucket req)) code msg"
    by (rule handler_text_body)
next
  fix str
  show "carriesCors cfg req (out_res (handler P cfg t rlBucket req))"
    by (rule handler_carries)
next
  fix code msg b
  assume "handler P cfg t rlBucket req = rejected cfg req code msg b"
  then show "isErrorResponse (out_res (handler P cfg t rlBucket req)) code msg"
    by (simp only: rejected_is_error)
next
  show "carriesCors cfg req (out_res (handler P cfg t rlBucket req))"
    by (rule handler_carries)
next
  fix res
  assume "proxy_wrapper P req = Responded res"
  then have r: "res = wrapper_error"
    by (rule proxy_wrapper_responded)
  show "isErrorResponse res 400
        ''Provide target via ?url= or /api/proxy/<url>, only http(s) allowed.''"
    unfolding r by (rule wrapper_error_is_error)
  fix n
  assume "toLowerCase n \<noteq> ''content-type''"
  then show "getHeader res n = None"
    unfolding r by (rule wrapper_error_headers)
next
  fix res
  assume a: "proxy_wrapper_health P req = Responded res \<and> statusCode res \<noteq> 200"
  then have "res = sendHealthJSON \<or> res = sendHealthText \<or> res = wrapper_health_error"
    using proxy_wrapper_health_responded by blast
  with a show r: "res = wrapper_health_error"
    using wrapper_health_status by auto
  then show "statusCode res = 400"
    by (simp only: wrapper_health_status)
  fix n
  assume "toLowerCase n \<noteq> ''content-type''"
  then show "getHeader res n = None"
    unfolding r by (rule wrapper_health_headers)
qed

lemma wrapper_no_target:
  "proxy_wrapper example_platform (example_request ''GET'' []) = Responded wrapper_error"
  by (simp add: proxy_wrapper_def makeCorsAnywherePath_def example_platform_def example_newURL_def
      example_request_def startsWith_def wrapper_error_def Let_def)

lemma wrapper_health_no_target:
  "proxy_wrapper_health example_platform (example_request ''POST'' []) =
     Responded wrapper_health_error"
  by (simp add: proxy_wrapper_health_def makeCorsAnywherePath_def example_platform_def
      example_newURL_def example_request_def startsWith_def wrapper_health_error_def Let_def)

text \<open>
  Where the claim as written fails: the wrapper's answer to a request without a target has
  status 400 and no CORS header.
\<close>

theorem C8_wrapper_error_counterexample:
  "proxy_wrapper example_platform (example_request ''GET'' []) = Responded wrapper_error \<and>
   statusCode wrapper_error = 400 \<and>
   getHeader wrapper_error ''access-control-allow-origin'' = None \<and>
   getHeader wrapper_error ''access-control-expose-headers'' = None"
  by (simp add: wrapper_no_target wrapper_error_headers) (simp add: wrapper_error_def)

lemma blocked_request_outcome:
  "handler example_platform default_config 0 Map.empty (example_request ''GET'' ''http://127.0.0.1/'') =
     rejected default_config (example_request ''GET'' ''http://127.0.0.1/'') 403
       ''Target host is blocked.'' Map.empty"
proof -
  let ?r = "example_request ''GET'' ''http://127.0.0.1/''"
  have t: "getTargetFromRequest example_platform ?r = ''http://127.0.0.1/''"
    by (rule example_target)
  have n: "getTargetFromRequest example_platform ?r \<noteq> []"
    by (simp add: t)
  have s: "isHttpHttps example_platform (getTargetFromRequest example_platform ?r)"
    by (simp add: t isHttpHttps_def example_parse)
  have b: "isBlockedPrivateHost example_platform (getTargetFromRequest example_platform ?r)"
    by (simp add: t isBlockedPrivateHost_def example_parse lc_hosts blocked_examples)
  have e: "snd (rateLimitAllow (rateLimitMax default_config) 0 Map.empty (getClientIP ?r)) = Map.empty"
    by (simp add: rateLimitAllow_def default_config_def)
  show ?thesis
    using handler_blocked [OF example_GET_admitted n s b, of 0 Map.empty] by (simp only: e)
qed

lemma json_error_text:
  \<open>JSON_stringify (JObject [(''error'', JString ''Target host is blocked.'')]) =
     ''{"error":"Target host is blocked."}''\<close>
  by code_simp

text \<open>The body and the CORS headers of a 403, and the response of the wrapper.\<close>

theorem C8_error_responses_witness:
  \<open>res_body (out_res (handler example_platform default_config 0 Map.empty
       (example_request ''GET'' ''http://127.0.0.1/''))) =
     Some (Text ''{"error":"Target host is blocked."}'') \<and>
   statusCode (out_res (handler example_platform default_config 0 Map.empty
       (example_request ''GET'' ''http://127.0.0.1/''))) = 403 \<and>
   getHeader (out_res (handler example_platform default_config 0 Map.empty
       (example_request ''GET'' ''http://127.0.0.1/''))) ''access-control-allow-origin'' = Some ''*'' \<and>
   getHeader (out_res (handler example_platform default_config 0 Map.empty
       (example_request ''GET'' ''http://127.0.0.1/''))) ''access-control-expose-headers'' = Some ''*'' \<and>
   proxy_wrapper example_platform (example_request ''GET'' []) = Responded wrapper_error \<and>
   isErrorResponse wrapper_error 400
     ''Provide target via ?url= or /api/proxy/<url>, only http(s) allowed.'' \<and>
   proxy_wrapper_health example_platform (example_request ''POST'' []) =
     Responded wrapper_health_error \<and>
   statusCode wrapper_health_error = 400\<close>
proof -
  let ?r = "example_request ''GET'' ''http://127.0.0.1/''"
  let ?h = "handler example_platform default_config 0 Map.empty ?r"
  note c = C8_error_responses [of example_platform default_config 0 Map.empty ?r]
  have b: "res_body (out_res ?h) =
      Some (Text (JSON_stringify (JObject [(''error'', JString ''Target host is blocked.'')])))"
    by (simp add: blocked_request_outcome)
  from c b have cors: "carriesCors default_config ?r (out_res ?h)"
    by blast
  have cr: "\<not> credentials default_config"
    by (simp add: default_config_def)
  from cors cr have h: "getHeader (out_res ?h) ''access-control-allow-origin'' = Some ''*''"
    "getHeader (out_res ?h) ''access-control-expose-headers'' = Some ''*''"
    by (simp_all add: carriesCors_def corsHeaders_def)
  have s: "statusCode (out_res ?h) = 403"
    by (simp add: blocked_request_outcome)
  note c' = C8_error_responses [of example_platform default_config 0 Map.empty
      "example_request ''GET'' []"]
  note w = c' [THEN conjunct2, THEN conjunct2, THEN conjunct1, rule_format, OF wrapper_no_target,
      THEN conjunct1]
  have p: "proxy_wrapper_health example_platform (example_request ''POST'' []) =
      Responded wrapper_health_error \<and> statusCode wrapper_health_error \<noteq> 200"
    by (simp add: wrapper_health_no_target wrapper_health_status)
  note w' = C8_error_responses [of example_platform default_config 0 Map.empty
      "example_request ''POST'' []", THEN conjunct2, THEN conjunct2, THEN conjunct2, rule_format,
      OF p, THEN conjunct2, THEN conjunct1]
  show ?thesis
    using b h s w w' wrapper_no_target wrapper_health_no_target
    by (simp only: json_error_text simp_thms)
qed

section \<open>Relaying the upstream response\<close>

lemma scrubResponseHeaders_fold: "scrubResponseHeaders hs = foldl scrubStep [] hs"
proof -
  have "(\<lambda>out (k, v). let lk = toLowerCase k
                        in if lk \<in> set hopByHopHeaders then out
                           else if k = ''__proto__'' then out else assign out k v) = scrubStep"
    by (intro ext) (simp add: scrubStep_def relayable_def case_prod_unfold Let_def)
  then show ?thesis
    by (simp add: scrubResponseHeaders_def)
qed

lemma map_of_assign: "map_of (assign out k v) = (map_of out)(k \<mapsto> v)"
  by (induction out) (auto simp add: fun_eq_iff)

lemma keys_assign: "fst ` set (assign out k v) = insert k (fst ` set out)"
  by (simp add: dom_map_of_conv_image_fst [symmetric] map_of_assign)

lemma distinct_assign: "distinct (map fst out) \<Longrightarrow> distinct (map fst (assign out k v))"
  by (induction out) (auto simp add: keys_assign)

lemma map_of_scrubStep:
  "map_of (scrubStep out kv) = (if relayable (fst kv) then (map_of out)(fst kv \<mapsto> snd kv) else map_of out)"
  by (simp add: scrubStep_def map_of_assign)

lemma map_of_foldl_scrubStep:
  "map_of (foldl scrubStep out hs) = map_of out ++ map_of (rev (filter (\<lambda>kv. relayable (fst kv)) hs))"
proof (induction hs arbitrary: out)
  case Nil
  show ?case by simp
next
  case (Cons kv hs)
  show ?case
    by (cases kv) (simp add: Cons.IH map_of_scrubStep)
qed

lemma distinct_foldl_scrubStep:
  "distinct (map fst out) \<Longrightarrow> distinct (map fst (foldl scrubStep out hs))"
  by (induction hs arbitrary: out) (simp_all add: scrubStep_def distinct_assign)

lemma keys_foldl_scrubStep:
  "fst ` set (foldl scrubStep out hs) \<subseteq> fst ` set out \<union> fst ` set hs"
proof (induction hs arbitrary: out)
  case Nil
  show ?case by simp
next
  case (Cons kv hs)
  have "fst ` set (scrubStep out kv) \<subseteq> insert (fst kv) (fst ` set out)"
    by (auto simp add: scrubStep_def keys_assign)
  with Cons.IH [of "scrubStep out kv"] show ?case
    by auto
qed

lemma map_of_rev_distinct: "distinct (map fst xs) \<Longrightarrow> map_of (rev xs) = map_of xs"
proof (induction xs)
  case Nil
  show ?case by simp
next
  case (Cons x xs)
  then have "fst x \<notin> dom (map_of xs)"
    by (simp add: dom_map_of_conv_image_fst)
  with Cons show ?case
    by (cases x) (auto simp add: fun_eq_iff map_add_def split: option.splits)
qed

lemma res_headers_copyStep:
  "res_headers (copyStep r kv) =
     (if startsWith (toLowerCase (fst kv)) ''access-control-'' then res_headers r
      else (res_headers r)(toLowerCase (fst kv) \<mapsto> kv))"
  by (cases kv) (simp add: copyStep_def setHeader_def)

lemma res_headers_foldl_copyStep:
  "res_headers (foldl copyStep res hs) =
     res_headers res ++
     map_of (rev (map (\<lambda>kv. (toLowerCase (fst kv), kv))
                    (filter (\<lambda>kv. \<not> startsWith (toLowerCase (fst kv)) ''access-control-'') hs)))"
proof (induction hs arbitrary: res)
  case Nil
  show ?case by simp
next
  case (Cons kv hs)
  show ?case
    by (simp add: Cons.IH res_headers_copyStep)
qed

lemma map_of_tagged_filter:
  "map_of (map (\<lambda>kv. (fst kv, kv)) (filter (\<lambda>kv. Q (fst kv)) out)) k =
     (if Q k then map_option (Pair k) (map_of out k) else None)"
  by (induction out) auto

lemma map_of_rev_filter_keys:
  "map_of (rev (filter (\<lambda>kv. Q (fst kv)) hs)) k = (if Q k then map_of (rev hs) k else None)"
proof -
  have "map_of (filter (\<lambda>kv. Q (fst kv)) xs) k = (if Q k then map_of xs k else None)" for xs
    by (induction xs) auto
  then show ?thesis
    by (simp only: rev_filter)
qed

lemma getHeader_copy_scrub:
  assumes lc: "\<forall>k \<in> fst ` set hs. toLowerCase k = k"
  shows "getHeader (copyResponseHeaders res (scrubResponseHeaders hs)) n =
     (if \<not> startsWith (toLowerCase n) ''access-control-'' \<and> relayable (toLowerCase n)
      then (case map_of (rev hs) (toLowerCase n) of
              Some v \<Rightarrow> Some v
            | None \<Rightarrow> getHeader res n)
      else getHeader res n)"
proof -
  let ?out = "foldl scrubStep [] hs"
  let ?ac = "\<lambda>k. \<not> startsWith k ''access-control-''"
  let ?ys = "map (\<lambda>kv. (fst kv, kv)) (filter (\<lambda>kv. ?ac (fst kv)) ?out)"
  have keys: "fst ` set ?out \<subseteq> fst ` set hs"
    using keys_foldl_scrubStep [of "[]" hs] by simp
  have low: "toLowerCase (fst kv) = fst kv" if "kv \<in> set ?out" for kv
  proof -
    from that have "fst kv \<in> fst ` set ?out"
      by (rule imageI)
    with keys have "fst kv \<in> fst ` set hs"
      by blast
    with lc show ?thesis
      by blast
  qed
  have d: "distinct (map fst ?out)"
    by (rule distinct_foldl_scrubStep) simp
  have f: "filter (\<lambda>kv. \<not> startsWith (toLowerCase (fst kv)) ''access-control-'') ?out =
      filter (\<lambda>kv. ?ac (fst kv)) ?out"
    by (rule filter_cong) (simp_all add: low)
  have g: "map (\<lambda>kv. (toLowerCase (fst kv), kv)) (filter (\<lambda>kv. ?ac (fst kv)) ?out) = ?ys"
    by (rule map_cong) (simp_all add: low)
  have "map fst ?ys = map fst (filter (\<lambda>kv. ?ac (fst kv)) ?out)"
    by (simp add: comp_def)
  moreover have "distinct (map fst (filter (\<lambda>kv. ?ac (fst kv)) ?out))"
    using d by (rule distinct_map_filter)
  ultimately have dy: "distinct (map fst ?ys)"
    by (simp only:)
  have h: "res_headers (copyResponseHeaders res (scrubResponseHeaders hs)) =
      res_headers res ++ map_of ?ys"
    by (simp only: copyResponseHeaders_fold scrubResponseHeaders_fold res_headers_foldl_copyStep
        f g map_of_rev_distinct [OF dy])
  have o: "map_of ?out k = (if relayable k then map_of (rev hs) k else None)" for k
    by (simp add: map_of_foldl_scrubStep map_of_rev_filter_keys)
  have y: "map_of ?ys k = (if ?ac k then map_option (Pair k) (map_of ?out k) else None)" for k
    by (rule map_of_tagged_filter [of ?ac])
  have "(res_headers res ++ map_of ?ys) (toLowerCase n) =
      (if ?ac (toLowerCase n) \<and> relayable (toLowerCase n)
       then (case map_of (rev hs) (toLowerCase n) of
               Some v \<Rightarrow> Some (toLowerCase n, v)
             | None \<Rightarrow> res_headers res (toLowerCase n))
       else res_headers res (toLowerCase n))"
    unfolding map_add_def y o by (simp split: option.split)
  then show ?thesis
    unfolding getHeader_def h by (simp split: option.split)
qed

lemma reflectCors_getHeader:
  "getHeader (reflectCors cfg req res) n =
     (case map_of (corsHeaders cfg req) (toLowerCase n) of
        Some v \<Rightarrow> Some v
      | None \<Rightarrow> getHeader res n)"
  by (auto simp add: reflectCors_def corsHeaders_def Let_def)

lemma toLowerCase_char_idem: "toLowerCase_char (toLowerCase_char c) = toLowerCase_char c"
proof -
  have "of_char (char_of (of_char c + 32 :: nat)) = (of_char c + 32 :: nat)"
    if "(of_char c :: nat) \<le> 222"
    using that by simp
  then show ?thesis
    by (auto simp add: toLowerCase_char_def Let_def)
qed

lemma toLowerCase_idem [simp]: "toLowerCase (toLowerCase s) = toLowerCase s"
  by (simp add: toLowerCase_def toLowerCase_char_idem)

lemma getHeader_reflected_new:
  "getHeader ((reflectCors cfg req newResponse)\<lparr>statusCode := c\<rparr>) n =
     map_of (corsHeaders cfg req) (toLowerCase n)"
  by (simp add: reflectCors_getHeader split: option.split)

lemma relay_getHeader:
  assumes lc: "\<forall>k \<in> fst ` set (up_headers up). toLowerCase k = k"
    and b: "up_body up = Inr buf"
  shows "getHeader (relay cfg req (reflectCors cfg req newResponse) up) n =
           sentHeader cfg req up (toLowerCase n)"
proof -
  have "relay cfg req (reflectCors cfg req newResponse) up =
      end_res (reflectCors cfg req
        (copyResponseHeaders ((reflectCors cfg req newResponse)\<lparr>statusCode := up_status up\<rparr>)
           (scrubResponseHeaders (up_headers up)))) (Buffer buf)"
    by (simp add: relay_def Let_def b)
  then show ?thesis
    by (auto simp add: reflectCors_getHeader getHeader_copy_scrub [OF lc] getHeader_reflected_new
        sentHeader_def relayable_def split: option.split)
qed

lemma hop_not_cors: "ln \<in> set hopByHopHeaders \<Longrightarrow> map_of (corsHeaders cfg req) ln = None"
  by (auto simp add: hopByHopHeaders_def corsHeaders_def)

lemma sentHeader_verbatim:
  assumes "(k, v) \<in> set (up_headers up)" and "distinct (map fst (up_headers up))"
    and "k \<notin> set hopByHopHeaders" and "\<not> startsWith k ''access-control-''"
    and "k \<noteq> ''__proto__''" and "k \<notin> fst ` set (corsHeaders cfg req)"
  shows "sentHeader cfg req up k = Some v"
proof -
  have "map_of (rev (up_headers up)) k = Some v"
    using assms(1,2) by (simp add: map_of_rev_distinct)
  moreover have "map_of (corsHeaders cfg req) k = None"
    using assms(6) by (simp add: map_of_eq_None_iff)
  ultimately show ?thesis
    using assms(3-5) by (simp add: sentHeader_def)
qed

lemma map_of_rev_eq:
  assumes "distinct (map fst xs)"
  shows "map_of (rev xs) k = map_of xs k"
proof (cases "map_of xs k")
  case None
  then have "k \<notin> fst ` set (rev xs)"
    by (simp add: map_of_eq_None_iff)
  then have "map_of (rev xs) k = None"
    by (simp add: map_of_eq_None_iff)
  with None show ?thesis
    by simp
next
  case (Some v)
  then have "(k, v) \<in> set xs"
    by (rule map_of_SomeD)
  with assms Some show ?thesis
    by (simp add: map_of_rev_distinct)
qed

lemma sentHeader_relayed:
  assumes "distinct (map fst (up_headers up))" and "''__proto__'' \<notin> fst ` set (up_headers up)"
  shows "sentHeader cfg req up ln = relayedHeader cfg req up ln"
proof -
  from assms(2) have "map_of (up_headers up) ''__proto__'' = None"
    by (simp add: map_of_eq_None_iff)
  then show ?thesis
    by (auto simp add: sentHeader_def relayedHeader_def map_of_rev_eq [OF assms(1)]
        split: option.split)
qed

lemma relayedHeader_hop: "ln \<in> set hopByHopHeaders \<Longrightarrow> relayedHeader cfg req up ln = None"
  by (simp add: relayedHeader_def hop_not_cors)

lemma relayedHeader_access_control:
  "startsWith ln ''access-control-'' \<Longrightarrow>
   relayedHeader cfg req up ln = map_of (corsHeaders cfg req) ln"
  by (simp add: relayedHeader_def split: option.split)

lemma handler_relays_headers:
  assumes s: "succeeds P cfg req up"
    and r: "fst (rateLimitAllow (rateLimitMax cfg) t rlBucket (getClientIP req))"
    and lc: "\<forall>k \<in> fst ` set (up_headers up). toLowerCase k = k"
  shows "getHeader (out_res (handler P cfg t rlBucket req)) n =
           sentHeader cfg req up (toLowerCase n)"
proof -
  from s obtain buf where b: "up_body up = Inr buf"
    by (auto simp add: succeeds_def split: sum.splits)
  show ?thesis
    by (simp only: handler_succeeds(1) [OF s r] relay_getHeader [OF lc b])
qed

lemma handler_fetches:
  assumes s: "succeeds P cfg req up"
    and r: "fst (rateLimitAllow (rateLimitMax cfg) t rlBucket (getClientIP req))"
  shows "\<exists>body. upstreamBody req = Inr body \<and>
           out_fetches (handler P cfg t rlBucket req) = [upstreamInit P req body]"
proof -
  from s r have a: "admitted cfg t rlBucket req" and v: "validTarget P req"
    by (simp_all add: succeeds_def admitted_def)
  from s obtain body where b: "upstreamBody req = Inr body"
    by (auto simp add: succeeds_def split: sum.splits)
  then show ?thesis
    using handler_forward [OF a v] by simp
qed

lemma handler_relays_body:
  assumes s: "succeeds P cfg req up"
    and r: "fst (rateLimitAllow (rateLimitMax cfg) t rlBucket (getClientIP req))"
    and b: "up_body up = Inr buf"
  shows "res_body (out_res (handler P cfg t rlBucket req)) = Some (Buffer buf)"
  by (simp only: handler_succeeds(1) [OF s r] relay_buffer_body [OF b])

text \<open>
  Claim C2, as the code has it. Take a request that passes the Policy Gate and the Target
  Validator and whose outbound call answers with \<open>up\<close>, the header names of \<open>up\<close> being
  lower-case as \<open>fetch\<close> yields them, pairwise distinct, and none of them \<open>__proto__\<close>. The
  response has the status of \<open>up\<close> and, for its body, the bytes that \<open>upstream.arrayBuffer()\<close>
  delivers. Under each name it carries what \<open>relayedHeader\<close> says: the proxy's own CORS value
  for the proxy's CORS headers (in credentials mode \<open>Vary\<close> is one of them), nothing for
  hop-by-hop names and for other \<open>access-control-\<close> names, and the upstream value for every
  other name; so an upstream header outside these groups is relayed verbatim. The one
  outbound call is made for the resolved target with redirect mode \<open>manual\<close>, so a redirect
  is relayed, not followed. Nothing is stated here for an upstream response that repeats a
  name (several \<open>Set-Cookie\<close> entries) or has an entry named \<open>__proto__\<close>.
\<close>

theorem C2_upstream_response_relayed:
  assumes s: "succeeds P cfg req up"
    and r: "fst (rateLimitAllow (rateLimitMax cfg) t rlBucket (getClientIP req))"
    and lc: "\<forall>k \<in> fst ` set (up_headers up). toLowerCase k = k"
    and d: "distinct (map fst (up_headers up))"
    and np: "''__proto__'' \<notin> fst ` set (up_headers up)"
  shows "statusCode (out_res (handler P cfg t rlBucket req)) = up_status up \<and>
         (\<forall>buf. up_body up = Inr buf \<longrightarrow>
            res_body (out_res (handler P cfg t rlBucket req)) = Some (Buffer buf)) \<and>
         (\<forall>n. getHeader (out_res (handler P cfg t rlBucket req)) n =
                 relayedHeader cfg req up (toLowerCase n)) \<and>
         (\<forall>k v. (k, v) \<in> set (up_headers up) \<and>
                k \<notin> set hopByHopHeaders \<and> \<not> startsWith k ''access-control-'' \<and>
                k \<notin> fst ` set (corsHeaders cfg req) \<longrightarrow>
            getHeader (out_res (handler P cfg t rlBucket req)) k = Some v) \<and>
         (\<forall>n. toLowerCase n \<in> set hopByHopHeaders \<longrightarrow>
            getHeader (out_res (handler P cfg t rlBucket req)) n = None) \<and>
         (\<forall>n. startsWith (toLowerCase n) ''access-control-'' \<longrightarrow>
            getHeader (out_res (handler P cfg t rlBucket req)) n =
              map_of (corsHeaders cfg req) (toLowerCase n)) \<and>
         carriesCors cfg req (out_res (handler P cfg t rlBucket req)) \<and>
         (\<exists>body. out_fetches (handler P cfg t rlBucket req) = [upstreamInit P req body]) \<and>
         (\<forall>body. f_redirect (upstreamInit P req body) = ''manual'' \<and>
                 f_target (upstreamInit P req body) = getTargetFromRequest P req)"
proof -
  have h: "getHeader (out_res (handler P cfg t rlBucket req)) n =
      relayedHeader cfg req up (toLowerCase n)" for n
    by (simp only: handler_relays_headers [OF s r lc] sentHeader_relayed [OF d np])
  have v: "getHeader (out_res (handler P cfg t rlBucket req)) k = Some v"
    if "(k, v) \<in> set (up_headers up)"
      "k \<notin> set hopByHopHeaders" "\<not> startsWith k ''access-control-''"
      "k \<notin> fst ` set (corsHeaders cfg req)" for k v
  proof -
    from that(1) lc have "toLowerCase k = k"
      by force
    moreover from that(1) np have "k \<noteq> ''__proto__''"
      by force
    ultimately show ?thesis
      using sentHeader_verbatim [OF that(1) d that(2,3) _ that(4)]
      by (simp add: handler_relays_headers [OF s r lc])
  qed
  show ?thesis
    using handler_succeeds(3) [OF s r] handler_relays_body [OF s r] handler_fetches [OF s r] v
    by (auto simp add: h relayedHeader_hop relayedHeader_access_control handler_carries
        upstreamInit_def)
qed

lemma public_request_succeeds:
  assumes n: "newURL P = example_newURL" and f: "fetch P = (\<lambda>init. Inr up)"
    and b: "up_body up = Inr buf" and p: "passesPolicy cfg public_request"
  shows "succeeds P cfg public_request up"
proof -
  have m: "req_method public_request = ''GET''"
    by (simp add: public_request_def)
  have t: "getTargetFromRequest P public_request = ''http://93.184.216.34/''"
    by (simp add: getTargetFromRequest_def n example_newURL_def public_request_def
        example_request_def startsWith_def Let_def)
  have u: "newURL P ''http://93.184.216.34/'' None =
     Some \<lparr>protocol = ''http:'', hostname = ''93.184.216.34'', pathname = ''/'', searchParam_url = None\<rparr>"
    by (simp add: n example_newURL_def startsWith_def)
  have v: "validTarget P public_request"
    by (simp add: validTarget_def t isHttpHttps_def isBlockedPrivateHost_def u lc_hosts
        blocked_examples)
  have ub: "upstreamBody public_request = Inr None"
    by (simp add: upstreamBody_def upstreamMethod_def m)
  show ?thesis
    by (simp add: succeeds_def m p v ub f b)
qed

lemma public_request_passes:
  "passesPolicy default_config public_request" "passesPolicy credentials_config public_request"
  by (simp_all add: passesPolicy_def originDenied_def originNotAllowed_def
      missingRequiredHeader_def unauthorized_def credentials_config_def default_config_def)

lemma unlimited:
  "fst (rateLimitAllow (rateLimitMax default_config) t rlBucket ip)"
  "fst (rateLimitAllow (rateLimitMax credentials_config) t rlBucket ip)"
  by (simp_all add: rateLimitAllow_def credentials_config_def default_config_def)

lemma example_platforms:
  "newURL example_platform = example_newURL" "fetch example_platform = (\<lambda>init. Inr example_upstream)"
  "newURL redirect_platform = example_newURL" "fetch redirect_platform = (\<lambda>init. Inr redirect_upstream)"
  by (simp_all add: example_platform_def redirect_platform_def)

lemma example_upstream_lower:
  "\<forall>k \<in> fst ` set (up_headers example_upstream). toLowerCase k = k"
  "\<forall>k \<in> fst ` set (up_headers redirect_upstream). toLowerCase k = k"
  by code_simp+

lemma redirect_upstream_sel:
  "up_status redirect_upstream = 302" "up_body redirect_upstream = Inr []"
  by (simp_all add: redirect_upstream_def)

lemma relayed_examples:
  "relayedHeader default_config public_request example_upstream ''x-test'' = Some ''1''"
  "relayedHeader default_config public_request example_upstream ''transfer-encoding'' = None"
  "relayedHeader default_config public_request example_upstream ''connection'' = None"
  "relayedHeader default_config public_request example_upstream ''access-control-allow-origin'' = Some ''*''"
  "relayedHeader default_config public_request example_upstream ''vary'' = Some ''Accept-Encoding''"
  "relayedHeader default_config public_request redirect_upstream ''location'' = Some ''https://other.example/''"
  by code_simp+

lemma sent_examples:
  "sentHeader credentials_config public_request example_upstream ''vary'' = Some ''Origin''"
  by code_simp

lemma example_upstream_names:
  "distinct (map fst (up_headers example_upstream))"
  "''__proto__'' \<notin> fst ` set (up_headers example_upstream)"
  "distinct (map fst (up_headers redirect_upstream))"
  "''__proto__'' \<notin> fst ` set (up_headers redirect_upstream)"
  by (simp_all add: example_upstream_def redirect_upstream_def)

lemma lc_more:
  "toLowerCase ''x-test'' = ''x-test''" "toLowerCase ''transfer-encoding'' = ''transfer-encoding''"
  "toLowerCase ''connection'' = ''connection''" "toLowerCase ''location'' = ''location''"
  by code_simp+

text \<open>
  The examples of the specification: status 201 with \<open>x-test: 1\<close> and body \<open>abc\<close>, the
  hop-by-hop headers gone, the upstream's Access-Control-Allow-Origin replaced; and a 302
  whose \<open>Location\<close> arrives unchanged.
\<close>

theorem C2_upstream_response_relayed_witness:
  "succeeds example_platform default_config public_request example_upstream \<and>
   statusCode (out_res (handler example_platform default_config 0 Map.empty public_request)) = 201 \<and>
   res_body (out_res (handler example_platform default_config 0 Map.empty public_request)) =
     Some (Buffer ''abc'') \<and>
   getHeader (out_res (handler example_platform default_config 0 Map.empty public_request))
     ''x-test'' = Some ''1'' \<and>
   getHeader (out_res (handler example_platform default_config 0 Map.empty public_request))
     ''transfer-encoding'' = None \<and>
   getHeader (out_res (handler example_platform default_config 0 Map.empty public_request))
     ''connection'' = None \<and>
   getHeader (out_res (handler example_platform default_config 0 Map.empty public_request))
     ''access-control-allow-origin'' = Some ''*'' \<and>
   succeeds redirect_platform default_config public_request redirect_upstream \<and>
   statusCode (out_res (handler redirect_platform default_config 0 Map.empty public_request)) = 302 \<and>
   getHeader (out_res (handler redirect_platform default_config 0 Map.empty public_request))
     ''location'' = Some ''https://other.example/'' \<and>
   map f_redirect (out_fetches (handler redirect_platform default_config 0 Map.empty public_request)) =
     [''manual'']"
proof -
  have s1: "succeeds example_platform default_config public_request example_upstream"
    by (rule public_request_succeeds [OF example_platforms(1,2) example_upstream_sel(2)
          public_request_passes(1)])
  have s2: "succeeds redirect_platform default_config public_request redirect_upstream"
    by (rule public_request_succeeds [OF example_platforms(3,4) redirect_upstream_sel(2)
          public_request_passes(1)])
  note c1 = C2_upstream_response_relayed [OF s1 unlimited(1) example_upstream_lower(1)
      example_upstream_names(1,2), of 0 Map.empty]
  note c2 = C2_upstream_response_relayed [OF s2 unlimited(1) example_upstream_lower(2)
      example_upstream_names(3,4), of 0 Map.empty]
  from c1 have a: "statusCode (out_res (handler example_platform default_config 0 Map.empty public_request)) = 201"
    by (simp only: example_upstream_sel)
  from c1 have b: "res_body (out_res (handler example_platform default_config 0 Map.empty public_request)) =
     Some (Buffer ''abc'')"
    using example_upstream_sel(2) by blast
  from c1 have h: "getHeader (out_res (handler example_platform default_config 0 Map.empty public_request)) n =
      relayedHeader default_config public_request example_upstream (toLowerCase n)" for n
    by blast
  from c2 have a2: "statusCode (out_res (handler redirect_platform default_config 0 Map.empty public_request)) = 302"
    by (simp only: redirect_upstream_sel)
  from c2 have h2: "getHeader (out_res (handler redirect_platform default_config 0 Map.empty public_request)) n =
      relayedHeader default_config public_request redirect_upstream (toLowerCase n)" for n
    by blast
  from c2 obtain body where
    "out_fetches (handler redirect_platform default_config 0 Map.empty public_request) =
       [upstreamInit redirect_platform public_request body]"
    by blast
  then have f2: "map f_redirect (out_fetches (handler redirect_platform default_config 0 Map.empty public_request)) =
     [''manual'']"
    by (simp add: upstreamInit_def)
  show ?thesis
    by (intro conjI)
      (simp_all only: s1 s2 a b a2 f2 h h2 lc_more lc_names relayed_examples)
qed

text \<open>
  Where the claim as written fails: in credentials mode the upstream's
  \<open>Vary: Accept-Encoding\<close>, neither hop-by-hop nor an \<open>access-control-\<close> header, reaches the
  client as \<open>Vary: Origin\<close>.
\<close>

theorem C2_vary_replaced_counterexample:
  "credentials credentials_config \<and>
   fetch example_platform
     (upstreamInit example_platform public_request None) = Inr example_upstream \<and>
   map_of (up_headers example_upstream) ''vary'' = Some ''Accept-Encoding'' \<and>
   getHeader (out_res (handler example_platform credentials_config 0 Map.empty public_request))
     ''vary'' = Some ''Origin''"
proof -
  have s: "succeeds example_platform credentials_config public_request example_upstream"
    by (rule public_request_succeeds [OF example_platforms(1,2) example_upstream_sel(2)
          public_request_passes(2)])
  have h: "getHeader (out_res (handler example_platform credentials_config 0 Map.empty public_request))
      ''vary'' = Some ''Origin''"
    by (simp only: handler_relays_headers [OF s unlimited(2) example_upstream_lower(1)]
        lc_names sent_examples)
  have c: "credentials credentials_config"
    by (simp add: credentials_config_def)
  have v: "map_of (up_headers example_upstream) ''vary'' = Some ''Accept-Encoding''"
    by (simp add: example_upstream_def)
  show ?thesis
    by (intro conjI) (simp_all only: h c v example_fetch)
qed

end
